theory Spec2Isabelle
  imports Main
begin

section \<open>Values shared by the controllers\<close>

text \<open>
  Document identifiers (MongoDB ObjectIds) are natural numbers. A thrown JavaScript value is
  either an \<open>ApiError\<close> (HTTP status code, message) or another \<open>Error\<close> object, kept with
  the three properties the handlers inspect: \<open>name\<close>, \<open>code\<close> and \<open>message\<close>.
\<close>

type_synonym objectId = nat

text \<open>
  Modelled from the spec: the class \<open>ApiError\<close> (utils/ApiError.utils.js) is not among the
  sources. The spec's error taxonomy gives it an HTTP status code; the call sites give it a
  message. Nothing else of it is read by the modelled code.
\<close>

datatype exn = ApiError nat string | JsError string "nat option" string

fun statusCode :: "exn \<Rightarrow> nat option" where
  "statusCode (ApiError c m) = Some c"
| "statusCode (JsError n c m) = None"

fun message :: "exn \<Rightarrow> string" where
  "message (ApiError c m) = m"
| "message (JsError n c m) = m"

fun isApiError :: "exn \<Rightarrow> bool" where
  "isApiError (ApiError c m) = True"
| "isApiError (JsError n c m) = False"

text \<open>A document field that may be absent (\<open>undefined\<close>), \<open>null\<close>, or hold a value.\<close>

datatype 'a field = Undefined | Null | Value 'a

section \<open>utils/validator.utils.js\<close>

text \<open>
  The four regular expressions of \<open>isPasswordStrong\<close> have no flags, so each is a test for
  one code unit of a fixed ASCII class. Passwords are strings of 8-bit code units here; a
  code unit above 255 matches none of the classes and only adds to the length.
\<close>

definition isUpper :: "char \<Rightarrow> bool" where
  "isUpper c = (65 \<le> (of_char c :: nat) \<and> (of_char c :: nat) \<le> 90)"

definition isLower :: "char \<Rightarrow> bool" where
  "isLower c = (97 \<le> (of_char c :: nat) \<and> (of_char c :: nat) \<le> 122)"

definition isDigit :: "char \<Rightarrow> bool" where
  "isDigit c = (48 \<le> (of_char c :: nat) \<and> (of_char c :: nat) \<le> 57)"

text \<open>
  The class \<^verbatim>\<open>[!@#$%^&*()_+\-=\[\]{};':"\\|,.<>\/?]\<close>, by code: ! @ # $ % ^ & * ( ) _ + - =
  [ ] { } ; ' : " \ | , . < > / ?
\<close>

definition specialCodes :: "nat list" where
  "specialCodes = [33, 64, 35, 36, 37, 94, 38, 42, 40, 41, 95, 43, 45, 61, 91, 93, 123, 125,
     59, 39, 58, 34, 92, 124, 44, 46, 60, 62, 47, 63]"

definition isSpecial :: "char \<Rightarrow> bool" where
  "isSpecial c = ((of_char c :: nat) \<in> set specialCodes)"

definition isPasswordStrong :: "string \<Rightarrow> bool" where
  "isPasswordStrong password =
     (list_ex isUpper password \<and> list_ex isLower password \<and> list_ex isDigit password \<and>
      list_ex isSpecial password \<and> 6 \<le> length password)"

text \<open>
  \<open>isStringEmpty\<close>: a request field may be missing (\<open>None\<close>); \<open>str.trim() === ""\<close> holds
  when every code unit is white space (of the 8-bit range: tab, line feed, vertical tab,
  form feed, carriage return, space, no-break space).
\<close>

definition isWhiteSpace :: "char \<Rightarrow> bool" where
  "isWhiteSpace c = ((of_char c :: nat) \<in> set [9, 10, 11, 12, 13, 32, 160])"

definition isStringEmpty :: "string option \<Rightarrow> bool" where
  "isStringEmpty str = (case str of None \<Rightarrow> True | Some s \<Rightarrow> s = [] \<or> list_all isWhiteSpace s)"

definition areRequiredFieldsProvided :: "string option list \<Rightarrow> bool" where
  "areRequiredFieldsProvided fields = list_all (\<lambda>field. \<not> isStringEmpty field) fields"

section \<open>Signed tokens (the jsonwebtoken library)\<close>

text \<open>
  The library is outside the repository. Its \<open>sign\<close> is deterministic: the token is computed
  from the payload, the secret, the issue time in whole seconds (\<open>iat\<close>) and the expiry
  (\<open>exp = iat + expiresIn\<close>), so a signed token is represented by exactly these data. Any
  other string a caller may present is \<open>Junk\<close>. \<open>verify\<close> throws on a malformed token, on a
  token signed with another secret and on \<open>exp \<le> now\<close>; otherwise it returns the payload,
  of which the handlers read \<open>_id\<close> only.
\<close>

datatype token = Jwt string objectId "string list" nat nat | Junk string

definition jwt_sign :: "objectId \<Rightarrow> string list \<Rightarrow> string \<Rightarrow> nat \<Rightarrow> nat \<Rightarrow> token" where
  "jwt_sign ident claims secret expiresIn now = Jwt secret ident claims now (now + expiresIn)"

fun jwt_verify :: "token \<Rightarrow> string \<Rightarrow> nat \<Rightarrow> exn + objectId" where
  "jwt_verify (Junk s) secret now = Inl (JsError ''JsonWebTokenError'' None ''jwt malformed'')"
| "jwt_verify (Jwt k ident claims iat ex) secret now =
     (if k \<noteq> secret then Inl (JsError ''JsonWebTokenError'' None ''invalid signature'')
      else if ex \<le> now then Inl (JsError ''TokenExpiredError'' None ''jwt expired'')
      else Inr ident)"

text \<open>
  \<open>a || b\<close> on two optional token strings: the first, unless it is missing or the empty
  string. \<open>!s\<close> on an optional string.
\<close>

definition tokenTruthy :: "token option \<Rightarrow> bool" where
  "tokenTruthy t = (t \<noteq> None \<and> t \<noteq> Some (Junk []))"

definition orElse :: "token option \<Rightarrow> token option \<Rightarrow> token option" where
  "orElse a b = (if tokenTruthy a then a else b)"

definition falsy :: "string option \<Rightarrow> bool" where
  "falsy s = (s = None \<or> s = Some [])"

text \<open>
  The process environment and the two predicates of the validator library, which the code
  calls and the repository does not define.
\<close>

record env =
  ACCESS_TOKEN_SECRET :: string
  REFRESH_TOKEN_SECRET :: string
  ACCESS_TOKEN_EXPIRES_IN :: "nat option"
  REFRESH_TOKEN_EXPIRES_IN :: "nat option"
  isEmailValid :: "string \<Rightarrow> bool"
  isPhoneValid :: "string \<Rightarrow> bool"

section \<open>models/admin.model.js and models/client.model.js\<close>

text \<open>
  A stored password is the bcrypt hash of a plain text at a cost factor; \<open>bcrypt.compare\<close>
  accepts exactly that plain text. Fields no modelled check reads (timestamps, last login,
  address, profile image, reset tokens) are left out.
\<close>

datatype hashed = Bcrypt nat string

fun bcrypt_compare :: "string \<Rightarrow> hashed \<Rightarrow> bool" where
  "bcrypt_compare password (Bcrypt cost plain) = (password = plain)"

record admin =
  a_fullName :: string
  a_email :: string
  a_password :: hashed
  a_refreshToken :: "token field"
  a_role :: string
  a_permissions :: "(string \<times> bool) list"
  a_isActive :: bool

record client =
  c_fullName :: string
  c_email :: string
  c_password :: hashed
  c_phone :: string
  c_role :: string
  c_status :: string
  c_isEmailVerified :: bool
  c_verificationToken :: "token field"
  c_refreshToken :: "token field"

definition expiresIn :: "nat option \<Rightarrow> nat \<Rightarrow> nat" where
  "expiresIn configured dflt = (case configured of None \<Rightarrow> dflt | Some t \<Rightarrow> t)"

definition admin_generateAccessToken :: "env \<Rightarrow> nat \<Rightarrow> objectId \<Rightarrow> admin \<Rightarrow> token" where
  "admin_generateAccessToken e now ident a =
     jwt_sign ident [a_role a, a_email a] (ACCESS_TOKEN_SECRET e)
       (expiresIn (ACCESS_TOKEN_EXPIRES_IN e) 900) now"

definition admin_generateRefreshToken :: "env \<Rightarrow> nat \<Rightarrow> objectId \<Rightarrow> admin \<Rightarrow> token" where
  "admin_generateRefreshToken e now ident a =
     jwt_sign ident [] (REFRESH_TOKEN_SECRET e) (expiresIn (REFRESH_TOKEN_EXPIRES_IN e) 604800) now"

definition client_generateAccessToken :: "env \<Rightarrow> nat \<Rightarrow> objectId \<Rightarrow> client \<Rightarrow> token" where
  "client_generateAccessToken e now ident c =
     jwt_sign ident [c_email c, c_fullName c, c_role c] (ACCESS_TOKEN_SECRET e)
       (expiresIn (ACCESS_TOKEN_EXPIRES_IN e) 86400) now"

definition client_generateRefreshToken :: "env \<Rightarrow> nat \<Rightarrow> objectId \<Rightarrow> client \<Rightarrow> token" where
  "client_generateRefreshToken e now ident c =
     jwt_sign ident [] (REFRESH_TOKEN_SECRET e) (expiresIn (REFRESH_TOKEN_EXPIRES_IN e) 604800) now"

section \<open>The other models and the database\<close>

record blog =
  b_title :: string
  b_author :: objectId
  b_coverImage_url :: string

record service =
  s_title :: string
  s_thumbnail :: "string option"
  s_status :: string
  s_createdBy :: objectId

text \<open>
  Modelled from the spec: the model \<open>clientServiceRequest.model.js\<close> is not among the
  sources. The spec gives an attachment an external URL, the object store's identifier
  (\<open>publicId\<close>) and a resource kind; the controller reads \<open>createdBy\<close>, \<open>status\<close> and
  \<open>attachments\<close> of a request.
\<close>

record attachment =
  att_url :: string
  att_publicId :: string
  att_resourceType :: "string option"

record serviceRequest =
  r_createdBy :: objectId
  r_status :: string
  r_attachments :: "attachment list"

text \<open>
  A collection is the list of its documents with their \<open>_id\<close>, in insertion order. The
  query helpers are the Mongoose calls the handlers make.
\<close>

type_synonym 'a coll = "(objectId \<times> 'a) list"

record db =
  Admin :: "admin coll"
  Client :: "client coll"
  Blog :: "blog coll"
  Services :: "service coll"
  ClientServiceRequest :: "serviceRequest coll"

definition findById :: "'a coll \<Rightarrow> objectId \<Rightarrow> 'a option" where
  "findById c ident = map_of c ident"

definition findOne :: "'a coll \<Rightarrow> ('a \<Rightarrow> bool) \<Rightarrow> (objectId \<times> 'a) option" where
  "findOne c P = List.find (\<lambda>(k, x). P x) c"

definition updateById :: "objectId \<Rightarrow> ('a \<Rightarrow> 'a) \<Rightarrow> 'a coll \<Rightarrow> 'a coll" where
  "updateById ident f c = map (\<lambda>(k, x). if k = ident then (k, f x) else (k, x)) c"

definition deleteById :: "objectId \<Rightarrow> 'a coll \<Rightarrow> 'a coll" where
  "deleteById ident c = filter (\<lambda>(k, x). k \<noteq> ident) c"

definition insertDoc :: "objectId \<Rightarrow> 'a \<Rightarrow> 'a coll \<Rightarrow> 'a coll" where
  "insertDoc ident x c = c @ [(ident, x)]"

section \<open>middlewares/auth.middlewares.js and middlewares/admin.auth.middlewares.js\<close>



definition verifyAdminJwt_try ::
  "env \<Rightarrow> nat \<Rightarrow> token option \<Rightarrow> token option \<Rightarrow> db \<Rightarrow> exn + (objectId \<times> admin)" where
  "verifyAdminJwt_try e now adminAccessToken authorization d =
     (let token = orElse adminAccessToken authorization in
      if \<not> tokenTruthy token then Inl (ApiError 401 ''Unauthorized request - No token provided'')
      else case jwt_verify (the token) (ACCESS_TOKEN_SECRET e) now of
        Inl err \<Rightarrow> Inl err
      | Inr ident \<Rightarrow>
          (case findById (Admin d) ident of
             None \<Rightarrow> Inl (ApiError 401 ''Invalid admin token or account inactive'')
           | Some a \<Rightarrow>
               if \<not> a_isActive a then Inl (ApiError 401 ''Invalid admin token or account inactive'')
               else if a_refreshToken a = Null
                 then Inl (ApiError 401 ''Token invalidated - please login again'')
               else Inr (ident, a)))"

definition orDefault :: "string \<Rightarrow> string \<Rightarrow> string" where
  "orDefault m dflt = (if m = [] then dflt else m)"

definition verifyAdminJwt ::
  "env \<Rightarrow> nat \<Rightarrow> token option \<Rightarrow> token option \<Rightarrow> db \<Rightarrow> exn + (objectId \<times> admin)" where
  "verifyAdminJwt e now adminAccessToken authorization d =
     (case verifyAdminJwt_try e now adminAccessToken authorization d of
        Inl err \<Rightarrow> Inl (ApiError 401 (orDefault (message err) ''Invalid admin access token''))
      | Inr a \<Rightarrow> Inr a)"

text \<open>Arguments: the refresh-token cookie and \<open>req.body.refreshToken\<close>.\<close>

definition verifyAdminRefreshToken_try ::
  "env \<Rightarrow> nat \<Rightarrow> token option \<Rightarrow> token option \<Rightarrow> db \<Rightarrow> exn + (objectId \<times> admin)" where
  "verifyAdminRefreshToken_try e now adminRefreshToken bodyRefreshToken d =
     (let incomingRefreshToken = orElse adminRefreshToken bodyRefreshToken in
      if \<not> tokenTruthy incomingRefreshToken
        then Inl (ApiError 401 ''Unauthorized request - No refresh token'')
      else case jwt_verify (the incomingRefreshToken) (REFRESH_TOKEN_SECRET e) now of
        Inl err \<Rightarrow> Inl err
      | Inr ident \<Rightarrow>
          (case findById (Admin d) ident of
             None \<Rightarrow> Inl (ApiError 401 ''Invalid refresh token'')
           | Some a \<Rightarrow>
               if Value (the incomingRefreshToken) \<noteq> a_refreshToken a
                 then Inl (ApiError 401 ''Refresh token is expired or used'')
               else Inr (ident, a)))"

definition verifyAdminRefreshToken ::
  "env \<Rightarrow> nat \<Rightarrow> token option \<Rightarrow> token option \<Rightarrow> db \<Rightarrow> exn + (objectId \<times> admin)" where
  "verifyAdminRefreshToken e now adminRefreshToken bodyRefreshToken d =
     (case verifyAdminRefreshToken_try e now adminRefreshToken bodyRefreshToken d of
        Inl err \<Rightarrow> Inl (ApiError 401 (orDefault (message err) ''Invalid refresh token''))
      | Inr a \<Rightarrow> Inr a)"

section \<open>Handlers that use no transaction session\<close>

text \<open>
  A handler answers with \<open>res.status(c).json(new ApiResponse(c, data, message))\<close>; of the
  data, the response keeps the access and refresh token when the handler issues them. The
  handlers of this section take the database and return it as they leave it; their database
  calls are taken to succeed.
\<close>

datatype response = Response nat string "(token \<times> token) option"

subsection \<open>controllers/admin.controller.js\<close>

definition loginAdmin ::
  "env \<Rightarrow> nat \<Rightarrow> string option \<Rightarrow> string option \<Rightarrow> db \<Rightarrow> (exn + response) \<times> db" where
  "loginAdmin e now email password d =
     (if falsy email \<or> falsy password then (Inl (ApiError 400 ''Email and password are required''), d)
      else if \<not> isEmailValid e (the email) then (Inl (ApiError 400 ''Invalid email format''), d)
      else case findOne (Admin d) (\<lambda>a. a_email a = the email) of
        None \<Rightarrow> (Inl (ApiError 404 ''Admin not found''), d)
      | Some (ident, a) \<Rightarrow>
          if \<not> a_isActive a
            then (Inl (ApiError 403 ''Admin account is inactive. Please contact superadmin.''), d)
          else if \<not> bcrypt_compare (the password) (a_password a)
            then (Inl (ApiError 401 ''Invalid credentials''), d)
          else
            (let accessToken = admin_generateAccessToken e now ident a;
                 refreshToken = admin_generateRefreshToken e now ident a
             in (Inr (Response 200 ''Admin logged in successfully'' (Some (accessToken, refreshToken))),
                 d\<lparr>Admin := updateById ident (\<lambda>x. x\<lparr>a_refreshToken := Value refreshToken\<rparr>) (Admin d)\<rparr>)))"

definition refreshAdminToken_try ::
  "env \<Rightarrow> nat \<Rightarrow> token option \<Rightarrow> token option \<Rightarrow> db \<Rightarrow> (exn + response) \<times> db" where
  "refreshAdminToken_try e now adminRefreshToken bodyRefreshToken d =
     (let incomingRefreshToken = orElse adminRefreshToken bodyRefreshToken in
      if \<not> tokenTruthy incomingRefreshToken
        then (Inl (ApiError 401 ''Unauthorized request - No refresh token''), d)
      else case jwt_verify (the incomingRefreshToken) (REFRESH_TOKEN_SECRET e) now of
        Inl err \<Rightarrow> (Inl err, d)
      | Inr ident \<Rightarrow>
          (case findById (Admin d) ident of
             None \<Rightarrow> (Inl (ApiError 401 ''Invalid refresh token''), d)
           | Some a \<Rightarrow>
               if Value (the incomingRefreshToken) \<noteq> a_refreshToken a
                 then (Inl (ApiError 401 ''Refresh token is expired or used''), d)
               else
                 (let newAccessToken = admin_generateAccessToken e now ident a;
                      newRefreshToken = admin_generateRefreshToken e now ident a
                  in (Inr (Response 200 ''Access token refreshed'' (Some (newAccessToken, newRefreshToken))),
                      d\<lparr>Admin := updateById ident (\<lambda>x. x\<lparr>a_refreshToken := Value newRefreshToken\<rparr>)
                                   (Admin d)\<rparr>))))"

definition refreshAdminToken ::
  "env \<Rightarrow> nat \<Rightarrow> token option \<Rightarrow> token option \<Rightarrow> db \<Rightarrow> (exn + response) \<times> db" where
  "refreshAdminToken e now adminRefreshToken bodyRefreshToken d =
     (case refreshAdminToken_try e now adminRefreshToken bodyRefreshToken d of
        (Inl err, d') \<Rightarrow> (Inl (ApiError 401 (orDefault (message err) ''Invalid refresh token'')), d')
      | (Inr r, d') \<Rightarrow> (Inr r, d'))"

text \<open>\<open>logoutAdmin\<close> runs behind \<open>verifyAdminJwt\<close>; its argument is \<open>req.admin._id\<close>.\<close>

definition logoutAdmin :: "objectId \<Rightarrow> db \<Rightarrow> (exn + response) \<times> db" where
  "logoutAdmin reqAdminId d =
     (Inr (Response 200 ''Admin logged out successfully'' None),
      d\<lparr>Admin := updateById reqAdminId (\<lambda>x. x\<lparr>a_refreshToken := Undefined\<rparr>) (Admin d)\<rparr>)"

subsection \<open>controllers/client.controller.js\<close>

definition generateAccessAndRefreshToken ::
  "env \<Rightarrow> nat \<Rightarrow> objectId \<Rightarrow> db \<Rightarrow> (exn + token \<times> token) \<times> db" where
  "generateAccessAndRefreshToken e now clientId d =
     (case findById (Client d) clientId of
        None \<Rightarrow> (Inl (ApiError 500 ''Failed to generate access and refresh tokens''), d)
      | Some c \<Rightarrow>
          (let accessToken = client_generateAccessToken e now clientId c;
               refreshToken = client_generateRefreshToken e now clientId c
           in (Inr (accessToken, refreshToken),
               d\<lparr>Client := updateById clientId (\<lambda>x. x\<lparr>c_refreshToken := Value refreshToken\<rparr>) (Client d)\<rparr>)))"

definition loginClient_try ::
  "env \<Rightarrow> nat \<Rightarrow> string \<Rightarrow> string \<Rightarrow> db \<Rightarrow> (exn + response) \<times> db" where
  "loginClient_try e now email password d =
     (case findOne (Client d) (\<lambda>c. c_email c = email) of
        None \<Rightarrow> (Inl (ApiError 401 ''Invalid credentials''), d)
      | Some (ident, c) \<Rightarrow>
          if \<not> c_isEmailVerified c then (Inl (ApiError 403 ''Please verify your email first''), d)
          else if \<not> bcrypt_compare password (c_password c)
            then (Inl (ApiError 401 ''Invalid credentials''), d)
          else (case generateAccessAndRefreshToken e now ident d of
                  (Inl err, d') \<Rightarrow> (Inl err, d')
                | (Inr toks, d') \<Rightarrow>
                    (Inr (Response 200 ''Client logged in successfully'' (Some toks)), d')))"

definition statusOr :: "exn \<Rightarrow> nat \<Rightarrow> nat" where
  "statusOr err dflt = (case statusCode err of None \<Rightarrow> dflt | Some c \<Rightarrow> if c = 0 then dflt else c)"

definition loginClient ::
  "env \<Rightarrow> nat \<Rightarrow> string option \<Rightarrow> string option \<Rightarrow> db \<Rightarrow> (exn + response) \<times> db" where
  "loginClient e now email password d =
     (if falsy email \<or> falsy password then (Inl (ApiError 400 ''Email and password are required''), d)
      else case loginClient_try e now (the email) (the password) d of
        (Inl err, d') \<Rightarrow> (Inl (ApiError (statusOr err 500) (orDefault (message err) ''Login failed'')), d')
      | (Inr r, d') \<Rightarrow> (Inr r, d'))"

text \<open>\<open>logoutClient\<close> runs behind \<open>verifyJwt\<close>; its argument is \<open>req.client._id\<close>.\<close>

definition logoutClient :: "objectId \<Rightarrow> db \<Rightarrow> (exn + response) \<times> db" where
  "logoutClient reqClientId d =
     (Inr (Response 200 ''Client logged out successfully'' None),
      d\<lparr>Client := updateById reqClientId (\<lambda>x. x\<lparr>c_refreshToken := Undefined\<rparr>) (Client d)\<rparr>)"

definition refreshClientAccessToken_try ::
  "env \<Rightarrow> nat \<Rightarrow> token \<Rightarrow> db \<Rightarrow> (exn + response) \<times> db" where
  "refreshClientAccessToken_try e now incomingRefreshToken d =
     (case jwt_verify incomingRefreshToken (REFRESH_TOKEN_SECRET e) now of
        Inl err \<Rightarrow> (Inl err, d)
      | Inr ident \<Rightarrow>
          (case findById (Client d) ident of
             None \<Rightarrow> (Inl (ApiError 401 ''Invalid refresh token''), d)
           | Some c \<Rightarrow>
               if Value incomingRefreshToken \<noteq> c_refreshToken c
                 then (Inl (ApiError 401 ''Invalid refresh token''), d)
               else (case generateAccessAndRefreshToken e now ident d of
                       (Inl err, d') \<Rightarrow> (Inl err, d')
                     | (Inr toks, d') \<Rightarrow>
                         (Inr (Response 200 ''Access token refreshed'' (Some toks)), d'))))"

definition refreshClientAccessToken ::
  "env \<Rightarrow> nat \<Rightarrow> token option \<Rightarrow> token option \<Rightarrow> db \<Rightarrow> (exn + response) \<times> db" where
  "refreshClientAccessToken e now cookieRefreshToken bodyRefreshToken d =
     (let incomingRefreshToken = orElse cookieRefreshToken bodyRefreshToken in
      if \<not> tokenTruthy incomingRefreshToken then (Inl (ApiError 401 ''Unauthorized request''), d)
      else case refreshClientAccessToken_try e now (the incomingRefreshToken) d of
        (Inl err, d') \<Rightarrow> (Inl (ApiError 500 (orDefault (message err) ''Failed to refresh token'')), d')
      | (Inr r, d') \<Rightarrow> (Inr r, d'))"

text \<open>
  \<open>changeClientPassword\<close> runs behind \<open>verifyJwt\<close>; its first argument is \<open>req.client._id\<close>.
  The \<open>save\<close> re-hashes the modified password in the model's \<open>pre("save")\<close> hook, cost 10.
\<close>

definition changeClientPassword ::
  "objectId \<Rightarrow> string option \<Rightarrow> string option \<Rightarrow> db \<Rightarrow> (exn + response) \<times> db" where
  "changeClientPassword reqClientId oldPassword newPassword d =
     (if falsy oldPassword \<or> falsy newPassword then (Inl (ApiError 400 ''Both passwords are required''), d)
      else case findById (Client d) reqClientId of
        None \<Rightarrow> (Inl (ApiError 404 ''Client not found''), d)
      | Some c \<Rightarrow>
          if \<not> bcrypt_compare (the oldPassword) (c_password c)
            then (Inl (ApiError 401 ''Invalid current password''), d)
          else if \<not> isPasswordStrong (the newPassword)
            then (Inl (ApiError 400
              ''Password must be at least 6 characters with uppercase, lowercase, number and special character''), d)
          else (Inr (Response 200 ''Password changed'' None),
                d\<lparr>Client := updateById reqClientId
                     (\<lambda>x. x\<lparr>c_password := Bcrypt 10 (the newPassword)\<rparr>) (Client d)\<rparr>))"

section \<open>Transaction sessions (the MongoDB driver) and the handlers' control flow\<close>

text \<open>
  The driver is outside the repository; what the handlers rely on is modelled here. A
  handler holds one session. \<open>startTransaction\<close> gives the session its own view of the
  documents; a call made with the session reads and writes that view while the transaction
  is in progress, and the committed documents (\<open>store\<close>) otherwise. \<open>commitTransaction\<close>
  installs the view; \<open>abortTransaction\<close> drops it and, as in the driver, throws when the
  transaction was already committed or aborted. \<open>endSession\<close> aborts a transaction still
  in progress and releases the session.

  Every awaited call may reject: \<open>faults\<close> says at which call sites it does. A rejected
  call has no effect on the documents; a rejected commit leaves nothing committed, and the
  driver then counts the transaction as committed.
\<close>

datatype txn_state =
  NO_TRANSACTION | TRANSACTION_IN_PROGRESS | TRANSACTION_COMMITTED | TRANSACTION_ABORTED

record session =
  txn :: txn_state
  view :: db
  ended :: bool

record state =
  store :: db
  sess :: session

datatype site =
  FindAdmin | FindByEmail | FindByPhone | FindDoc | CreateDoc | SaveDoc | SaveAgain | UpdateDoc
  | DeleteDoc | SendEmail | Commit | ReloadDoc | OwnerFindClient | OwnerFindBlog | OwnerCommit

type_synonym faults = "site \<Rightarrow> bool"

type_synonym 'a js = "state \<Rightarrow> (exn + 'a) \<times> state"

definition ret :: "'a \<Rightarrow> 'a js" where
  "ret x s = (Inr x, s)"

definition throw :: "exn \<Rightarrow> 'a js" where
  "throw err s = (Inl err, s)"

definition andThen :: "'a js \<Rightarrow> ('a \<Rightarrow> 'b js) \<Rightarrow> 'b js" where
  "andThen m f s = (case m s of (Inl err, s') \<Rightarrow> (Inl err, s') | (Inr x, s') \<Rightarrow> f x s')"

definition tryCatch :: "'a js \<Rightarrow> (exn \<Rightarrow> 'a js) \<Rightarrow> 'a js" where
  "tryCatch body handler s = (case body s of (Inl err, s') \<Rightarrow> handler err s' | (Inr x, s') \<Rightarrow> (Inr x, s'))"

definition tryFinally :: "'a js \<Rightarrow> (state \<Rightarrow> state) \<Rightarrow> 'a js" where
  "tryFinally body fin s = (case body s of (r, s') \<Rightarrow> (r, fin s'))"

definition networkError :: exn where
  "networkError = JsError ''MongoNetworkError'' None ''connection closed''"

definition transactionError :: "string \<Rightarrow> exn" where
  "transactionError m = JsError ''MongoTransactionError'' None m"

definition startSession :: "db \<Rightarrow> state" where
  "startSession d = \<lparr>store = d, sess = \<lparr>txn = NO_TRANSACTION, view = d, ended = False\<rparr>\<rparr>"

definition startTransaction :: "state \<Rightarrow> state" where
  "startTransaction s = s\<lparr>sess := (sess s)\<lparr>txn := TRANSACTION_IN_PROGRESS, view := store s\<rparr>\<rparr>"

definition visible :: "state \<Rightarrow> db" where
  "visible s = (if txn (sess s) = TRANSACTION_IN_PROGRESS then view (sess s) else store s)"

text \<open>A query or an update made with \<open>.session(session)\<close> or \<open>{ session }\<close>.\<close>

definition readIn :: "faults \<Rightarrow> site \<Rightarrow> (db \<Rightarrow> 'a) \<Rightarrow> 'a js" where
  "readIn faults at q s = (if faults at then (Inl networkError, s) else (Inr (q (visible s)), s))"

definition writeIn :: "faults \<Rightarrow> site \<Rightarrow> (db \<Rightarrow> db) \<Rightarrow> unit js" where
  "writeIn faults at f s =
     (if faults at then (Inl networkError, s)
      else if txn (sess s) = TRANSACTION_IN_PROGRESS
        then (Inr (), s\<lparr>sess := (sess s)\<lparr>view := f (view (sess s))\<rparr>\<rparr>)
      else (Inr (), s\<lparr>store := f (store s)\<rparr>))"

text \<open>A query made without the session.\<close>

definition readOut :: "faults \<Rightarrow> site \<Rightarrow> (db \<Rightarrow> 'a) \<Rightarrow> 'a js" where
  "readOut faults at q s = (if faults at then (Inl networkError, s) else (Inr (q (store s)), s))"

definition commitTransaction :: "faults \<Rightarrow> site \<Rightarrow> unit js" where
  "commitTransaction faults at s =
     (case txn (sess s) of
        NO_TRANSACTION \<Rightarrow> (Inl (transactionError ''No transaction started''), s)
      | TRANSACTION_ABORTED \<Rightarrow>
          (Inl (transactionError ''Cannot call commitTransaction after calling abortTransaction''), s)
      | TRANSACTION_COMMITTED \<Rightarrow> (Inr (), s)
      | TRANSACTION_IN_PROGRESS \<Rightarrow>
          if faults at then (Inl networkError, s\<lparr>sess := (sess s)\<lparr>txn := TRANSACTION_COMMITTED\<rparr>\<rparr>)
          else (Inr (), s\<lparr>store := view (sess s), sess := (sess s)\<lparr>txn := TRANSACTION_COMMITTED\<rparr>\<rparr>))"

definition abortTransaction :: "unit js" where
  "abortTransaction s =
     (case txn (sess s) of
        NO_TRANSACTION \<Rightarrow> (Inl (transactionError ''No transaction started''), s)
      | TRANSACTION_ABORTED \<Rightarrow> (Inl (transactionError ''Cannot call abortTransaction twice''), s)
      | TRANSACTION_COMMITTED \<Rightarrow>
          (Inl (transactionError ''Cannot call abortTransaction after calling commitTransaction''), s)
      | TRANSACTION_IN_PROGRESS \<Rightarrow> (Inr (), s\<lparr>sess := (sess s)\<lparr>txn := TRANSACTION_ABORTED\<rparr>\<rparr>))"

definition endSession :: "state \<Rightarrow> state" where
  "endSession s =
     s\<lparr>sess := (sess s)\<lparr>ended := True,
          txn := (if txn (sess s) = TRANSACTION_IN_PROGRESS then TRANSACTION_ABORTED else txn (sess s))\<rparr>\<rparr>"

fun errName :: "exn \<Rightarrow> string" where
  "errName (ApiError c m) = ''Error''"
| "errName (JsError n c m) = n"

fun errCode :: "exn \<Rightarrow> nat option" where
  "errCode (ApiError c m) = None"
| "errCode (JsError n c m) = c"

section \<open>utils/cloudinary.utils.js\<close>

text \<open>
  The object store is outside the repository: \<open>destroy publicId resourceType\<close> is the outcome
  of \<open>cloudinary.uploader.destroy\<close> (the \<open>result\<close> string of its answer, or a thrown error),
  \<open>upload path\<close> that of \<open>uploadOnCloudinary\<close> (the \<open>secure_url\<close> of its answer, if any).
\<close>

record cloudinary =
  destroy :: "string \<Rightarrow> string \<Rightarrow> exn + string"
  upload :: "string \<Rightarrow> exn + string option"

definition deleteFromCloudinary :: "cloudinary \<Rightarrow> string \<Rightarrow> string \<Rightarrow> exn + string" where
  "deleteFromCloudinary cl publicId resourceType =
     (case
        (if publicId = [] then Inl (JsError ''Error'' None ''No public ID provided'')
         else if resourceType \<notin> set [''image'', ''video'', ''raw'']
           then Inl (JsError ''Error'' None ''Invalid resource type. Must be one of: image, video, raw'')
         else case destroy cl publicId resourceType of
           Inl err \<Rightarrow> Inl err
         | Inr result \<Rightarrow>
             if result \<noteq> ''ok'' then Inl (JsError ''Error'' None (''Deletion failed: '' @ result))
             else Inr result)
      of Inl err \<Rightarrow> Inl (JsError ''Error'' None (''Deletion failed: '' @ message err))
       | Inr result \<Rightarrow> Inr result)"

text \<open>\<open>url.split("/").pop().split(".")[0]\<close>\<close>

definition publicIdOf :: "string \<Rightarrow> string" where
  "publicIdOf url =
     takeWhile (\<lambda>c. c \<noteq> CHR ''.'') (rev (takeWhile (\<lambda>c. c \<noteq> CHR ''/'') (rev url)))"

text \<open>An awaited call that returns or throws without touching the documents.\<close>

definition lift :: "exn + 'a \<Rightarrow> 'a js" where
  "lift r s = (r, s)"

section \<open>utils/emailService.js\<close>

text \<open>
  \<open>sendEmail\<close> hands the message to the mail transport and rethrows any failure of it as
  \<open>Error("Failed to send email")\<close>; \<open>sendVerificationEmail\<close> builds the message and awaits
  \<open>sendEmail\<close>. The transport fails when \<open>faults SendEmail\<close> says so.
\<close>

definition sendEmail :: "faults \<Rightarrow> unit js" where
  "sendEmail faults =
     tryCatch (if faults SendEmail then throw networkError else ret ())
       (\<lambda>error. throw (JsError ''Error'' None ''Failed to send email''))"

definition sendVerificationEmail :: "faults \<Rightarrow> unit js" where
  "sendVerificationEmail faults = sendEmail faults"

section \<open>Handlers wrapped in a transaction session\<close>

text \<open>
  Each handler is \<open>try { ... } catch (error) { await session.abortTransaction(); ... }
  finally { session.endSession() }\<close> around a session opened by \<open>startSession\<close> and
  \<open>startTransaction\<close>. The \<open>_try\<close> function is the \<open>try\<close> block and the \<open>_catch\<close> function
  the \<open>catch\<close> block. A handler takes the committed documents and returns its outcome with
  the final state: the committed documents and the session as the handler leaves it.
\<close>

subsection \<open>Documents as Mongoose creates them\<close>

text \<open>
  \<open>Model.create\<close> validates the document against the schema (of the validators, the
  \<open>minlength\<close> of the password can fail after the handlers' own checks), hashes the
  password in the \<open>pre("save")\<close> hook, and inserts; the insert fails with code 11000 on a
  duplicate \<open>_id\<close> or unique field. \<open>newId\<close> is the \<open>_id\<close> generated for the document.
\<close>

definition validationError :: "string \<Rightarrow> exn" where
  "validationError m = JsError ''ValidationError'' None m"

definition duplicateKeyError :: exn where
  "duplicateKeyError = JsError ''MongoServerError'' (Some 11000) ''E11000 duplicate key error''"

definition permissionNames :: "string list" where
  "permissionNames = [''manageServices'', ''managePortfolio'', ''manageClients'', ''manageProjects'',
     ''manageTeam'', ''manageTestimonials'', ''manageBlog'', ''manageLeads'', ''manageContacts'',
     ''sendBulkEmails'', ''manageInvoices'', ''managePayments'', ''managePlans'',
     ''manageDeployments'', ''accessLogs'', ''manageBackups'', ''assignRoles'',
     ''managePermissions'', ''viewActivityLogs'', ''manageSecuritySettings'',
     ''managePrivacySettings'', ''manageSiteSettings'']"

definition schemaPermissions :: "(string \<times> bool) list \<Rightarrow> (string \<times> bool) list" where
  "schemaPermissions given =
     map (\<lambda>n. (n, case map_of given n of None \<Rightarrow> False | Some b \<Rightarrow> b)) permissionNames"

definition Client_create ::
  "faults \<Rightarrow> objectId \<Rightarrow> string \<Rightarrow> string \<Rightarrow> string \<Rightarrow> string \<Rightarrow> client js" where
  "Client_create faults newId fullName email password phone =
     (if length password < 6 then throw (validationError ''Client validation failed: password'')
      else if faults CreateDoc then throw networkError
      else andThen (readIn (\<lambda>x. False) CreateDoc (\<lambda>d. Client d)) (\<lambda>existing.
        if newId \<in> set (map fst existing) \<or> email \<in> set (map (c_email \<circ> snd) existing)
             \<or> phone \<in> set (map (c_phone \<circ> snd) existing)
          then throw duplicateKeyError
        else
          (let doc = \<lparr>c_fullName = fullName, c_email = email, c_password = Bcrypt 10 password,
                      c_phone = phone, c_role = ''client'', c_status = ''active'',
                      c_isEmailVerified = False, c_verificationToken = Undefined,
                      c_refreshToken = Undefined\<rparr>
           in andThen (writeIn (\<lambda>x. False) CreateDoc (\<lambda>d. d\<lparr>Client := insertDoc newId doc (Client d)\<rparr>))
                (\<lambda>u. ret doc))))"

definition Admin_create ::
  "faults \<Rightarrow> objectId \<Rightarrow> string \<Rightarrow> string \<Rightarrow> string \<Rightarrow> string \<Rightarrow> (string \<times> bool) list \<Rightarrow> admin js" where
  "Admin_create faults newId fullName email password role permissions =
     (if length password < 8 then throw (validationError ''Admin validation failed: password'')
      else if faults CreateDoc then throw networkError
      else andThen (readIn (\<lambda>x. False) CreateDoc (\<lambda>d. Admin d)) (\<lambda>existing.
        if newId \<in> set (map fst existing) \<or> email \<in> set (map (a_email \<circ> snd) existing)
          then throw duplicateKeyError
        else
          (let doc = \<lparr>a_fullName = fullName, a_email = email, a_password = Bcrypt 12 password,
                      a_refreshToken = Undefined, a_role = role,
                      a_permissions = schemaPermissions permissions, a_isActive = True\<rparr>
           in andThen (writeIn (\<lambda>x. False) CreateDoc (\<lambda>d. d\<lparr>Admin := insertDoc newId doc (Admin d)\<rparr>))
                (\<lambda>u. ret doc))))"

subsection \<open>controllers/client.controller.js: registerClient\<close>

definition registerClient_try ::
  "env \<Rightarrow> faults \<Rightarrow> nat \<Rightarrow> objectId \<Rightarrow> string option \<Rightarrow> string option \<Rightarrow> string option \<Rightarrow>
   string option \<Rightarrow> response js" where
  "registerClient_try e faults now newId fullName email password phone =
     (if \<not> areRequiredFieldsProvided [fullName, email, password, phone]
        then throw (ApiError 400 ''All fields are required'')
      else if \<not> isEmailValid e (the email) then throw (ApiError 400 ''Invalid email format'')
      else if \<not> isPhoneValid e (the phone) then throw (ApiError 400 ''Invalid phone number'')
      else if \<not> isPasswordStrong (the password)
        then throw (ApiError 400
          ''Password must be at least 6 characters with uppercase, lowercase, number and special character'')
      else
        andThen (readIn faults FindByEmail (\<lambda>d. findOne (Client d) (\<lambda>c. c_email c = the email)))
        (\<lambda>existingClient.
          if existingClient \<noteq> None then throw (ApiError 409 ''Email already registered'')
          else
            andThen (readIn faults FindByPhone (\<lambda>d. findOne (Client d) (\<lambda>c. c_phone c = the phone)))
            (\<lambda>existingPhone.
              if existingPhone \<noteq> None then throw (ApiError 409 ''Phone number already registered'')
              else
                andThen (Client_create faults newId (the fullName) (the email) (the password) (the phone))
                (\<lambda>c.
                andThen (writeIn faults SaveDoc (\<lambda>d. d\<lparr>Client := updateById newId
                           (\<lambda>x. x\<lparr>c_verificationToken := Value (client_generateAccessToken e now newId c)\<rparr>)
                           (Client d)\<rparr>))
                (\<lambda>u1.
                andThen (sendVerificationEmail faults)
                (\<lambda>u2.
                andThen (commitTransaction faults Commit)
                (\<lambda>u3.
                andThen (readOut faults ReloadDoc (\<lambda>d. findById (Client d) newId))
                (\<lambda>createdClient.
                  ret (Response 201 ''Client registered successfully. Please verify your email.'' None)
                ))))))))"

definition registerClient_catch :: "exn \<Rightarrow> response js" where
  "registerClient_catch error =
     andThen abortTransaction (\<lambda>u.
       if isApiError error then throw error
       else if errName error = ''ValidationError'' then throw (ApiError 400 (message error))
       else if errCode error = Some 11000 then throw (ApiError 400 ''Duplicate field value'')
       else throw (ApiError 500 ''Failed to register client''))"

definition registerClient ::
  "env \<Rightarrow> faults \<Rightarrow> nat \<Rightarrow> objectId \<Rightarrow> string option \<Rightarrow> string option \<Rightarrow> string option \<Rightarrow>
   string option \<Rightarrow> db \<Rightarrow> (exn + response) \<times> state" where
  "registerClient e faults now newId fullName email password phone d =
     tryFinally
       (tryCatch (registerClient_try e faults now newId fullName email password phone)
          registerClient_catch)
       endSession
       (startTransaction (startSession d))"

subsection \<open>controllers/admin.controller.js: createAdmin, changePassword\<close>

definition defaultPermissions :: "string \<Rightarrow> (string \<times> bool) list" where
  "defaultPermissions role =
     (if role = ''admin'' then
        [(''manageServices'', True), (''managePortfolio'', True), (''manageClients'', True),
         (''manageProjects'', True), (''manageTeam'', True), (''manageTestimonials'', True),
         (''manageBlog'', True), (''manageLeads'', True), (''manageContacts'', True),
         (''sendBulkEmails'', True), (''manageInvoices'', True), (''managePayments'', True),
         (''managePlans'', True), (''viewActivityLogs'', True)]
      else if role = ''moderator'' then
        [(''manageBlog'', True), (''manageTestimonials'', True), (''manageLeads'', True),
         (''manageContacts'', True), (''viewActivityLogs'', False)]
      else if role = ''client'' then
        [(''manageProjects'', False), (''viewActivityLogs'', False)]
      else [])"

text \<open>\<open>createAdmin\<close> runs behind \<open>verifyAdminJwt\<close>; \<open>reqAdminRole\<close> is \<open>req.admin.role\<close>.\<close>

definition createAdmin_try ::
  "env \<Rightarrow> faults \<Rightarrow> objectId \<Rightarrow> string \<Rightarrow> string option \<Rightarrow> string option \<Rightarrow> string option \<Rightarrow>
   string option \<Rightarrow> response js" where
  "createAdmin_try e faults newId reqAdminRole fullName email password role =
     (if reqAdminRole \<noteq> ''superadmin''
        then throw (ApiError 403 ''Unauthorized: Only superadmin can create admin accounts'')
      else if \<not> areRequiredFieldsProvided [fullName, email, password, role]
        then throw (ApiError 400 ''All fields (fullName, email, password, role) are required'')
      else if \<not> isEmailValid e (the email) then throw (ApiError 400 ''Invalid email format'')
      else if \<not> isPasswordStrong (the password)
        then throw (ApiError 400
          ''Password must be at least 8 characters with uppercase, lowercase, number, and special character'')
      else if the role \<notin> set [''admin'', ''moderator'', ''client'']
        then throw (ApiError 400 ''Role must be one of: admin, moderator, client'')
      else
        andThen (readIn faults FindByEmail (\<lambda>d. findOne (Admin d) (\<lambda>a. a_email a = the email)))
        (\<lambda>existingAdmin.
          if existingAdmin \<noteq> None then throw (ApiError 409 ''Email already in use by another admin'')
          else
            andThen (Admin_create faults newId (the fullName) (the email) (the password) (the role)
                       (defaultPermissions (the role)))
            (\<lambda>a.
            andThen (writeIn faults SaveDoc (\<lambda>d. d))
            (\<lambda>u1.
            andThen (commitTransaction faults Commit)
            (\<lambda>u2.
            andThen (readIn faults ReloadDoc (\<lambda>d. findById (Admin d) newId))
            (\<lambda>createdAdmin.
              if createdAdmin = None then throw (ApiError 500 ''Failed to create admin account'')
              else ret (Response 201 ''Admin account created successfully'' None)
            ))))))"

definition createAdmin_catch :: "exn \<Rightarrow> response js" where
  "createAdmin_catch error =
     andThen abortTransaction (\<lambda>u.
       if isApiError error then throw error
       else if errName error = ''ValidationError'' then throw (ApiError 400 (message error))
       else if errCode error = Some 11000 then throw (ApiError 409 ''Admin with this email already exists'')
       else throw (ApiError 500 (orDefault (message error) ''Failed to create admin account'')))"

definition createAdmin ::
  "env \<Rightarrow> faults \<Rightarrow> objectId \<Rightarrow> string \<Rightarrow> string option \<Rightarrow> string option \<Rightarrow> string option \<Rightarrow>
   string option \<Rightarrow> db \<Rightarrow> (exn + response) \<times> state" where
  "createAdmin e faults newId reqAdminRole fullName email password role d =
     tryFinally
       (tryCatch (createAdmin_try e faults newId reqAdminRole fullName email password role)
          createAdmin_catch)
       endSession
       (startTransaction (startSession d))"

text \<open>
  \<open>changePassword\<close> runs behind \<open>verifyAdminJwt\<close>; \<open>reqAdminId\<close> is \<open>req.admin._id\<close>. The
  first \<open>save\<close> validates the modified password against the schema (\<open>minlength: 8\<close>) and
  hashes it, cost 12; the second unsets the refresh token.
\<close>

definition changePassword_try ::
  "faults \<Rightarrow> objectId \<Rightarrow> string option \<Rightarrow> string option \<Rightarrow> response js" where
  "changePassword_try faults reqAdminId currentPassword newPassword =
     (if falsy currentPassword \<or> falsy newPassword
        then throw (ApiError 400 ''Current and new passwords are required'')
      else if \<not> isPasswordStrong (the newPassword)
        then throw (ApiError 400
          ''Password must be at least 8 characters with uppercase, lowercase, number, and special character'')
      else
        andThen (readIn faults FindDoc (\<lambda>d. findById (Admin d) reqAdminId))
        (\<lambda>found.
          case found of
            None \<Rightarrow> throw (ApiError 404 ''Admin not found'')
          | Some a \<Rightarrow>
              if \<not> bcrypt_compare (the currentPassword) (a_password a)
                then throw (ApiError 401 ''Current password is incorrect'')
              else if the currentPassword = the newPassword
                then throw (ApiError 400 ''New password must be different from current password'')
              else
                andThen (if length (the newPassword) < 8
                           then throw (validationError ''Admin validation failed: password'')
                         else writeIn faults SaveDoc (\<lambda>d. d\<lparr>Admin := updateById reqAdminId
                                (\<lambda>x. x\<lparr>a_password := Bcrypt 12 (the newPassword)\<rparr>) (Admin d)\<rparr>))
                (\<lambda>u1.
                andThen (writeIn faults SaveAgain (\<lambda>d. d\<lparr>Admin := updateById reqAdminId
                           (\<lambda>x. x\<lparr>a_refreshToken := Undefined\<rparr>) (Admin d)\<rparr>))
                (\<lambda>u2.
                andThen (commitTransaction faults Commit)
                (\<lambda>u3.
                  ret (Response 200 ''Password changed successfully. Please login again.'' None)
                )))))"

definition changePassword_catch :: "exn \<Rightarrow> response js" where
  "changePassword_catch error =
     andThen abortTransaction (\<lambda>u.
       if isApiError error then throw error
       else throw (ApiError 500 (orDefault (message error) ''Failed to change password'')))"

definition changePassword ::
  "faults \<Rightarrow> objectId \<Rightarrow> string option \<Rightarrow> string option \<Rightarrow> db \<Rightarrow> (exn + response) \<times> state" where
  "changePassword faults reqAdminId currentPassword newPassword d =
     tryFinally
       (tryCatch (changePassword_try faults reqAdminId currentPassword newPassword) changePassword_catch)
       endSession
       (startTransaction (startSession d))"

subsection \<open>controllers/services.controller.js\<close>

text \<open>
  \<open>checkAdminPermissions\<close> returns a JavaScript value: \<open>true\<close>, or whatever the property
  \<open>permission\<close> of the stored permission object holds, \<open>undefined\<close> (here \<open>None\<close>) when the
  object has no such flag. The callers test it with \<open>!hasPermission\<close>.
\<close>

definition checkAdminPermissions :: "faults \<Rightarrow> objectId \<Rightarrow> string \<Rightarrow> (bool option) js" where
  "checkAdminPermissions faults adminId permission =
     andThen (readOut faults FindAdmin (\<lambda>d. findById (Admin d) adminId))
     (\<lambda>found.
       case found of
         None \<Rightarrow> throw (ApiError 404 ''Admin not found'')
       | Some a \<Rightarrow>
           if a_role a = ''superadmin'' then ret (Some True)
           else ret (map_of (a_permissions a) permission))"

definition truthy :: "bool option \<Rightarrow> bool" where
  "truthy v = (v = Some True)"

text \<open>
  The service handlers run behind \<open>verifyAdminJwt\<close>: \<open>reqAdminId\<close> and \<open>reqAdminRole\<close> are
  \<open>req.admin._id\<close> and \<open>req.admin.role\<close>. \<open>serviceId\<close> is the route parameter, \<open>None\<close> when
  \<open>mongoose.Types.ObjectId.isValid\<close> rejects it.
\<close>

definition deleteService_try ::
  "faults \<Rightarrow> cloudinary \<Rightarrow> objectId \<Rightarrow> string \<Rightarrow> objectId option \<Rightarrow> response js" where
  "deleteService_try faults cl reqAdminId reqAdminRole serviceId =
     andThen (checkAdminPermissions faults reqAdminId ''manageServices'')
     (\<lambda>hasPermission.
       if \<not> truthy hasPermission
         then throw (ApiError 403 ''Unauthorized: You don't have permission to manage services'')
       else if serviceId = None then throw (ApiError 400 ''Invalid service ID'')
       else
         andThen (readIn faults FindDoc (\<lambda>d. findById (Services d) (the serviceId)))
         (\<lambda>found.
           case found of
             None \<Rightarrow> throw (ApiError 404 ''Service not found'')
           | Some service \<Rightarrow>
               if s_createdBy service \<noteq> reqAdminId \<and> reqAdminRole \<noteq> ''superadmin''
                 then throw (ApiError 403 ''Unauthorized: You can only delete services you created'')
               else
                 andThen
                   (if s_thumbnail service \<noteq> None \<and> s_thumbnail service \<noteq> Some []
                      then tryCatch
                             (andThen (lift (deleteFromCloudinary cl
                                         (publicIdOf (the (s_thumbnail service))) ''image''))
                                (\<lambda>r. ret ()))
                             (\<lambda>cloudinaryError. ret ())
                    else ret ())
                 (\<lambda>u1.
                 andThen (writeIn faults DeleteDoc
                            (\<lambda>d. d\<lparr>Services := deleteById (the serviceId) (Services d)\<rparr>))
                 (\<lambda>u2.
                 andThen (commitTransaction faults Commit)
                 (\<lambda>u3.
                   ret (Response 200 ''Service deleted successfully'' None)
                 )))))"

definition deleteService_catch :: "exn \<Rightarrow> response js" where
  "deleteService_catch error =
     andThen abortTransaction (\<lambda>u.
       if isApiError error then throw error
       else throw (ApiError 500 (orDefault (message error) ''Failed to delete service'')))"

definition deleteService ::
  "faults \<Rightarrow> cloudinary \<Rightarrow> objectId \<Rightarrow> string \<Rightarrow> objectId option \<Rightarrow> db \<Rightarrow> (exn + response) \<times> state" where
  "deleteService faults cl reqAdminId reqAdminRole serviceId d =
     tryFinally
       (tryCatch (deleteService_try faults cl reqAdminId reqAdminRole serviceId) deleteService_catch)
       endSession
       (startTransaction (startSession d))"

text \<open>\<open>filePath\<close> is \<open>req.file?.path\<close>. The handler has no \<open>finally\<close> block.\<close>

definition uploadThumbnail_try ::
  "faults \<Rightarrow> cloudinary \<Rightarrow> objectId \<Rightarrow> string \<Rightarrow> objectId option \<Rightarrow> string option \<Rightarrow> response js" where
  "uploadThumbnail_try faults cl reqAdminId reqAdminRole serviceId filePath =
     andThen (checkAdminPermissions faults reqAdminId ''manageServices'')
     (\<lambda>hasPermission.
       if \<not> truthy hasPermission
         then throw (ApiError 403 ''Unauthorized: You don't have permission to manage services'')
       else if serviceId = None then throw (ApiError 400 ''Invalid service ID'')
       else if falsy filePath then throw (ApiError 400 ''Thumbnail file is required'')
       else
         andThen (readIn faults FindDoc (\<lambda>d. findById (Services d) (the serviceId)))
         (\<lambda>found.
           case found of
             None \<Rightarrow> throw (ApiError 404 ''Service not found'')
           | Some service \<Rightarrow>
               if s_createdBy service \<noteq> reqAdminId \<and> reqAdminRole \<noteq> ''superadmin''
                 then throw (ApiError 403 ''Unauthorized: You can only update services you created'')
               else
                 andThen (lift (upload cl (the filePath)))
                 (\<lambda>secure_url.
                   if falsy secure_url then throw (ApiError 500 ''Failed to upload thumbnail'')
                   else
                     andThen
                       (if s_thumbnail service \<noteq> None \<and> s_thumbnail service \<noteq> Some []
                          then andThen (lift (deleteFromCloudinary cl
                                          (publicIdOf (the (s_thumbnail service))) ''image''))
                                 (\<lambda>r. ret ())
                        else ret ())
                     (\<lambda>u1.
                     andThen (writeIn faults SaveDoc (\<lambda>d. d\<lparr>Services := updateById (the serviceId)
                                (\<lambda>x. x\<lparr>s_thumbnail := secure_url\<rparr>) (Services d)\<rparr>))
                     (\<lambda>u2.
                     andThen (commitTransaction faults Commit)
                     (\<lambda>u3.
                       ret (Response 200 ''Thumbnail uploaded successfully'' None)
                     ))))))"

definition uploadThumbnail_catch :: "exn \<Rightarrow> response js" where
  "uploadThumbnail_catch error =
     andThen abortTransaction (\<lambda>u.
       throw (ApiError 500 (orDefault (message error) ''Failed to upload thumbnail'')))"

definition uploadThumbnail ::
  "faults \<Rightarrow> cloudinary \<Rightarrow> objectId \<Rightarrow> string \<Rightarrow> objectId option \<Rightarrow> string option \<Rightarrow> db \<Rightarrow>
   (exn + response) \<times> state" where
  "uploadThumbnail faults cl reqAdminId reqAdminRole serviceId filePath d =
     tryCatch (uploadThumbnail_try faults cl reqAdminId reqAdminRole serviceId filePath)
       uploadThumbnail_catch
       (startTransaction (startSession d))"

subsection \<open>controllers/clientService.controller.js: deleteServiceRequestAttachment\<close>

text \<open>
  Runs behind \<open>verifyJwt\<close>: \<open>reqClientId\<close> is \<open>req.client._id\<close>; \<open>requestId\<close> and \<open>publicId\<close>
  are the route parameters.
\<close>

definition resourceTypeOf :: "attachment \<Rightarrow> string" where
  "resourceTypeOf att =
     (case att_resourceType att of
        None \<Rightarrow> ''image''
      | Some rt \<Rightarrow> if rt = [] then ''image'' else if rt = ''raw'' then ''raw''
                  else if rt = ''video'' then ''video'' else ''image'')"

definition deleteServiceRequestAttachment_try ::
  "faults \<Rightarrow> cloudinary \<Rightarrow> objectId \<Rightarrow> objectId option \<Rightarrow> string \<Rightarrow> response js" where
  "deleteServiceRequestAttachment_try faults cl reqClientId requestId publicId =
     (if requestId = None then throw (ApiError 400 ''Invalid request ID format'')
      else if publicId = [] then throw (ApiError 400 ''Valid attachment public ID is required'')
      else
        andThen (readIn faults FindDoc
                   (\<lambda>d. case findById (ClientServiceRequest d) (the requestId) of
                           None \<Rightarrow> None
                         | Some r \<Rightarrow> if r_createdBy r = reqClientId then Some r else None))
        (\<lambda>found.
          case found of
            None \<Rightarrow> throw (ApiError 404 ''Service request not found'')
          | Some serviceRequest \<Rightarrow>
              (case List.find (\<lambda>att. att_publicId att = publicId) (r_attachments serviceRequest) of
                 None \<Rightarrow> throw (ApiError 404 ''Attachment not found in this request'')
               | Some att \<Rightarrow>
                   andThen (lift (deleteFromCloudinary cl publicId (resourceTypeOf att)))
                   (\<lambda>deletionResult.
                     if deletionResult \<noteq> ''ok''
                       then throw (ApiError 500 ''Failed to delete attachment from storage'')
                     else
                       andThen (writeIn faults UpdateDoc
                                  (\<lambda>d. d\<lparr>ClientServiceRequest := updateById (the requestId)
                                     (\<lambda>r. r\<lparr>r_attachments :=
                                        filter (\<lambda>a. att_publicId a \<noteq> publicId) (r_attachments r)\<rparr>)
                                     (ClientServiceRequest d)\<rparr>))
                       (\<lambda>u1.
                       andThen (commitTransaction faults Commit)
                       (\<lambda>u2.
                         ret (Response 200 ''Attachment deleted successfully'' None)
                       ))))))"

definition deleteServiceRequestAttachment_catch :: "exn \<Rightarrow> response js" where
  "deleteServiceRequestAttachment_catch error =
     andThen abortTransaction (\<lambda>u.
       if isApiError error then throw error
       else throw (ApiError 500 ''Attachment deletion failed''))"

definition deleteServiceRequestAttachment ::
  "faults \<Rightarrow> cloudinary \<Rightarrow> objectId \<Rightarrow> objectId option \<Rightarrow> string \<Rightarrow> db \<Rightarrow> (exn + response) \<times> state" where
  "deleteServiceRequestAttachment faults cl reqClientId requestId publicId d =
     tryFinally
       (tryCatch (deleteServiceRequestAttachment_try faults cl reqClientId requestId publicId)
          deleteServiceRequestAttachment_catch)
       endSession
       (startTransaction (startSession d))"

subsection \<open>controllers/blog.controller.js: verifyBlogOwnership, deleteBlog\<close>

text \<open>
  \<open>verifyBlogOwnership\<close> opens a session of its own on the committed documents and only
  reads. \<open>deleteBlog\<close> runs behind \<open>verifyJwt\<close>: \<open>reqClientId\<close> is \<open>req.client._id\<close>, \<open>blogId\<close>
  the route parameter, \<open>None\<close> when \<open>ObjectId.isValid\<close> rejects it.
\<close>

definition verifyBlogOwnership_try :: "faults \<Rightarrow> objectId \<Rightarrow> objectId \<Rightarrow> bool js" where
  "verifyBlogOwnership_try faults clientId blogId =
     andThen (readIn faults OwnerFindClient (\<lambda>d. findById (Client d) clientId))
     (\<lambda>foundClient.
       case foundClient of
         None \<Rightarrow> throw (ApiError 404 ''Client not found'')
       | Some c \<Rightarrow>
           if c_status c \<noteq> ''active'' then throw (ApiError 403 ''Client account is not active'')
           else
             andThen (readIn faults OwnerFindBlog (\<lambda>d. findById (Blog d) blogId))
             (\<lambda>foundBlog.
               case foundBlog of
                 None \<Rightarrow> throw (ApiError 404 ''Blog not found'')
               | Some b \<Rightarrow>
                   if b_author b \<noteq> clientId
                     then throw (ApiError 403 ''Unauthorized: You don't own this blog'')
                   else andThen (commitTransaction faults OwnerCommit) (\<lambda>u. ret True)))"

definition verifyBlogOwnership_catch :: "exn \<Rightarrow> bool js" where
  "verifyBlogOwnership_catch error = andThen abortTransaction (\<lambda>u. throw error)"

definition verifyBlogOwnership ::
  "faults \<Rightarrow> objectId \<Rightarrow> objectId \<Rightarrow> db \<Rightarrow> (exn + bool) \<times> state" where
  "verifyBlogOwnership faults clientId blogId d =
     tryFinally
       (tryCatch (verifyBlogOwnership_try faults clientId blogId) verifyBlogOwnership_catch)
       endSession
       (startTransaction (startSession d))"

text \<open>The call from a handler: the helper works on the committed documents.\<close>

definition callVerifyBlogOwnership :: "faults \<Rightarrow> objectId \<Rightarrow> objectId \<Rightarrow> bool js" where
  "callVerifyBlogOwnership faults clientId blogId s =
     (case verifyBlogOwnership faults clientId blogId (store s) of
        (r, s') \<Rightarrow> (r, s\<lparr>store := store s'\<rparr>))"

definition deleteBlog_try ::
  "faults \<Rightarrow> cloudinary \<Rightarrow> objectId \<Rightarrow> objectId option \<Rightarrow> response js" where
  "deleteBlog_try faults cl reqClientId blogId =
     (if blogId = None then throw (ApiError 400 ''Invalid blog ID'')
      else
        andThen (callVerifyBlogOwnership faults reqClientId (the blogId))
        (\<lambda>owned.
        andThen (readIn faults FindDoc (\<lambda>d. findById (Blog d) (the blogId)))
        (\<lambda>found.
          case found of
            None \<Rightarrow> throw (ApiError 404 ''Blog not found'')
          | Some b \<Rightarrow>
              andThen
                (if b_coverImage_url b \<noteq> []
                   then tryCatch
                          (andThen (lift (deleteFromCloudinary cl (publicIdOf (b_coverImage_url b)) ''image''))
                             (\<lambda>r. ret ()))
                          (\<lambda>cloudinaryError. ret ())
                 else ret ())
              (\<lambda>u1.
              andThen (writeIn faults DeleteDoc (\<lambda>d. d\<lparr>Blog := deleteById (the blogId) (Blog d)\<rparr>))
              (\<lambda>u2.
              andThen (commitTransaction faults Commit)
              (\<lambda>u3.
                ret (Response 200 ''Blog deleted successfully'' None)
              ))))))"

definition deleteBlog_catch :: "exn \<Rightarrow> response js" where
  "deleteBlog_catch error =
     andThen abortTransaction (\<lambda>u.
       if isApiError error then throw error
       else throw (ApiError 500 (orDefault (message error) ''Failed to delete blog'')))"

definition deleteBlog ::
  "faults \<Rightarrow> cloudinary \<Rightarrow> objectId \<Rightarrow> objectId option \<Rightarrow> db \<Rightarrow> (exn + response) \<times> state" where
  "deleteBlog faults cl reqClientId blogId d =
     tryFinally
       (tryCatch (deleteBlog_try faults cl reqClientId blogId) deleteBlog_catch)
       endSession
       (startTransaction (startSession d))"

definition noFaults :: faults where
  "noFaults at = False"

section \<open>Concrete data for the worked examples\<close>

definition env0 :: env where
  "env0 = \<lparr>ACCESS_TOKEN_SECRET = ''access-secret'', REFRESH_TOKEN_SECRET = ''refresh-secret'',
            ACCESS_TOKEN_EXPIRES_IN = None, REFRESH_TOKEN_EXPIRES_IN = None,
            isEmailValid = (\<lambda>s. CHR ''@'' \<in> set s), isPhoneValid = (\<lambda>s. 7 \<le> length s)\<rparr>"

definition root0 :: admin where
  "root0 = \<lparr>a_fullName = ''Root'', a_email = ''root@codix.io'', a_password = Bcrypt 12 ''Root123!@'',
             a_refreshToken = Undefined, a_role = ''superadmin'',
             a_permissions = schemaPermissions [], a_isActive = True\<rparr>"

definition mod0 :: admin where
  "mod0 = \<lparr>a_fullName = ''Mod'', a_email = ''mod@codix.io'', a_password = Bcrypt 12 ''Mod1234!@'',
            a_refreshToken = Undefined, a_role = ''moderator'',
            a_permissions = schemaPermissions (defaultPermissions ''moderator''), a_isActive = True\<rparr>"

definition idle0 :: admin where
  "idle0 = \<lparr>a_fullName = ''Idle'', a_email = ''idle@codix.io'', a_password = Bcrypt 12 ''Idle123!@'',
             a_refreshToken = Undefined, a_role = ''admin'',
             a_permissions = schemaPermissions (defaultPermissions ''admin''), a_isActive = False\<rparr>"

definition alice0 :: client where
  "alice0 = \<lparr>c_fullName = ''Alice'', c_email = ''alice@x.com'', c_password = Bcrypt 10 ''Alice1!'',
              c_phone = ''5550001'', c_role = ''client'', c_status = ''active'',
              c_isEmailVerified = True, c_verificationToken = Undefined, c_refreshToken = Undefined\<rparr>"

definition bob0 :: client where
  "bob0 = \<lparr>c_fullName = ''Bob'', c_email = ''bob@x.com'', c_password = Bcrypt 10 ''Bobby1!'',
            c_phone = ''5550002'', c_role = ''client'', c_status = ''banned'',
            c_isEmailVerified = True, c_verificationToken = Undefined, c_refreshToken = Undefined\<rparr>"

definition db0 :: db where
  "db0 = \<lparr>Admin = [(1, root0), (2, mod0), (3, idle0)],
           Client = [(10, alice0), (11, bob0)],
           Blog = [(20, \<lparr>b_title = ''Hello'', b_author = 10, b_coverImage_url = ''https://cdn/x/cover.png''\<rparr>),
                   (21, \<lparr>b_title = ''World'', b_author = 11, b_coverImage_url = []\<rparr>)],
           Services = [(30, \<lparr>s_title = ''Site'', s_thumbnail = Some ''https://cdn/x/thumb.png'',
                              s_status = ''active'', s_createdBy = 2\<rparr>)],
           ClientServiceRequest = [(40, \<lparr>r_createdBy = 10, r_status = ''pending'',
              r_attachments = [\<lparr>att_url = ''https://cdn/x/brief.pdf'', att_publicId = ''brief'',
                                 att_resourceType = Some ''raw''\<rparr>]\<rparr>)]\<rparr>"


definition cloudUp :: cloudinary where
  "cloudUp = \<lparr>destroy = (\<lambda>publicId resourceType. Inr ''ok''),
               upload = (\<lambda>path. Inr (Some (''https://cdn/x/'' @ path)))\<rparr>"

text \<open>
  Tokens as the handlers sign them at second 100: the pair \<open>loginAdmin\<close> issues to the
  superadmin, and access tokens of the inactive admin and of the banned client.
\<close>

definition rootAccess :: token where
  "rootAccess = Jwt ''access-secret'' 1 [''superadmin'', ''root@codix.io''] 100 1000"

definition rootRefresh :: token where
  "rootRefresh = Jwt ''refresh-secret'' 1 [] 100 604900"



definition db1 :: db where
  "db1 = db0\<lparr>Admin := [(1, root0\<lparr>a_refreshToken := Value rootRefresh\<rparr>), (2, mod0), (3, idle0)]\<rparr>"

section \<open>Refresh-token verification, as a predicate\<close>

text \<open>
  A refresh token passes verification for a principal when the check that guards the
  refresh accepts it for that principal: for an admin the middleware
  \<open>verifyAdminRefreshToken\<close>, for a client the checks of \<open>refreshClientAccessToken\<close> itself.
\<close>

definition adminRefreshAccepted :: "env \<Rightarrow> nat \<Rightarrow> db \<Rightarrow> objectId \<Rightarrow> token \<Rightarrow> bool" where
  "adminRefreshAccepted e now d ident t =
     (case verifyAdminRefreshToken e now (Some t) None d of
        Inl err \<Rightarrow> False
      | Inr (j, a) \<Rightarrow> j = ident)"

definition clientRefreshAccepted :: "env \<Rightarrow> nat \<Rightarrow> db \<Rightarrow> objectId \<Rightarrow> token \<Rightarrow> bool" where
  "clientRefreshAccepted e now d ident t =
     (case refreshClientAccessToken e now (Some t) None d of
        (Inl err, d') \<Rightarrow> False
      | (Inr r, d') \<Rightarrow> jwt_verify t (REFRESH_TOKEN_SECRET e) now = Inr ident)"

text \<open>Tokens and documents of the worked examples for the client and for a later refresh.\<close>

definition aliceAccess :: token where
  "aliceAccess = Jwt ''access-secret'' 10 [''alice@x.com'', ''Alice'', ''client''] 100 86500"

definition aliceRefresh :: token where
  "aliceRefresh = Jwt ''refresh-secret'' 10 [] 100 604900"

definition db2 :: db where
  "db2 = db0\<lparr>Client := [(10, alice0\<lparr>c_refreshToken := Value aliceRefresh\<rparr>), (11, bob0)]\<rparr>"

definition rootRefresh200 :: token where
  "rootRefresh200 = Jwt ''refresh-secret'' 1 [] 200 605000"

definition rootAccess200 :: token where
  "rootAccess200 = Jwt ''access-secret'' 1 [''superadmin'', ''root@codix.io''] 200 1100"

definition db3 :: db where
  "db3 = db0\<lparr>Admin := [(1, root0\<lparr>a_refreshToken := Value rootRefresh200\<rparr>), (2, mod0), (3, idle0)]\<rparr>"

text \<open>The client documents after a password change of the logged-in client.\<close>

definition db4 :: db where
  "db4 = db0\<lparr>Client := [(10, alice0\<lparr>c_password := Bcrypt 10 ''Alice2!?'', c_refreshToken := Value aliceRefresh\<rparr>),
                         (11, bob0)]\<rparr>"

text \<open>The attachment of the stored service request.\<close>

definition brief :: attachment where
  "brief = \<lparr>att_url = ''https://cdn/x/brief.pdf'', att_publicId = ''brief'', att_resourceType = Some ''raw''\<rparr>"


section \<open>Properties\<close>

lemma isPasswordStrong_rejects_abc123: "\<not> isPasswordStrong ''abc123''"
  by (simp add: isPasswordStrong_def isUpper_def)

lemma isPasswordStrong_accepts_Abc123: "isPasswordStrong ''Abc123!@''"
  by (simp add: isPasswordStrong_def isUpper_def isLower_def isDigit_def isSpecial_def
      specialCodes_def)

subsection \<open>Collections and tokens\<close>

lemma findById_updateById:
  "findById (updateById i f c) j = (if j = i then map_option f (findById c j) else findById c j)"
  by (induction c) (auto simp: findById_def updateById_def)

lemma findById_deleteById:
  "findById (deleteById i c) j = (if j = i then None else findById c j)"
  by (induction c) (auto simp: findById_def deleteById_def)


lemma jwt_verify_Inr:
  "jwt_verify t k now = Inr i \<longleftrightarrow> (\<exists>cl iat ex. t = Jwt k i cl iat ex \<and> now < ex)"
  by (cases t) auto

lemma jwt_verify_truthy: "jwt_verify t k now = Inr i \<Longrightarrow> tokenTruthy (Some t)"
  by (cases t) (auto simp: tokenTruthy_def)

lemma jwt_verify_Inl_message:
  "jwt_verify t k now = Inl x \<Longrightarrow>
     message x = ''jwt malformed'' \<or> message x = ''invalid signature'' \<or> message x = ''jwt expired''"
  by (cases t) (auto split: if_splits)

subsection \<open>Running a handler\<close>

lemmas js_defs = andThen_def ret_def throw_def tryCatch_def tryFinally_def readIn_def readOut_def
  writeIn_def commitTransaction_def abortTransaction_def endSession_def startSession_def
  startTransaction_def visible_def lift_def


subsection \<open>Permission evaluation\<close>



subsection \<open>The authentication middleware\<close>







text \<open>
  C10. \<open>verifyAdminJwt\<close> answers \<open>Token invalidated\<close> only for an active admin whose stored
  refresh token is \<open>null\<close>. \<open>logoutAdmin\<close> unsets the field, so after the logout of an
  active admin every access token of that admin that \<open>jwt.verify\<close> accepts is still accepted
  by \<open>verifyAdminJwt\<close>.
\<close>

theorem logout_leaves_access_token_valid:
  assumes "jwt_verify t (ACCESS_TOKEN_SECRET e) now = Inr i"
    and "findById (Admin d) i = Some a" and "a_isActive a"
  shows "verifyAdminJwt e now (Some t) h (snd (logoutAdmin i d)) = Inr (i, a\<lparr>a_refreshToken := Undefined\<rparr>)
       \<and> (\<forall>d' c' h'. verifyAdminJwt e now c' h' d' = Inl (ApiError 401 ''Token invalidated - please login again'')
            \<longrightarrow> (\<exists>j b. jwt_verify (the (orElse c' h')) (ACCESS_TOKEN_SECRET e) now = Inr j \<and>
                   findById (Admin d') j = Some b \<and> a_isActive b \<and> a_refreshToken b = Null))"
proof (intro conjI allI impI)
  have tt: "tokenTruthy (Some t)" using assms(1) by (rule jwt_verify_truthy)
  show "verifyAdminJwt e now (Some t) h (snd (logoutAdmin i d)) = Inr (i, a\<lparr>a_refreshToken := Undefined\<rparr>)"
    using assms tt
    by (simp add: verifyAdminJwt_def verifyAdminJwt_try_def orElse_def logoutAdmin_def findById_updateById)
next
  fix d' c' h'
  assume "verifyAdminJwt e now c' h' d' = Inl (ApiError 401 ''Token invalidated - please login again'')"
  then show "\<exists>j b. jwt_verify (the (orElse c' h')) (ACCESS_TOKEN_SECRET e) now = Inr j \<and>
                   findById (Admin d') j = Some b \<and> a_isActive b \<and> a_refreshToken b = Null"
    by (auto simp: verifyAdminJwt_def verifyAdminJwt_try_def Let_def orDefault_def
           split: sum.splits option.splits if_splits dest: jwt_verify_Inl_message)
qed

theorem logout_leaves_access_token_valid_witness:
  "loginAdmin env0 100 (Some ''root@codix.io'') (Some ''Root123!@'') db0 =
     (Inr (Response 200 ''Admin logged in successfully'' (Some (rootAccess, rootRefresh))), db1) \<and>
   verifyAdminJwt env0 999 (Some rootAccess) None (snd (logoutAdmin 1 db1)) = Inr (1, root0)"
proof -
  have v: "jwt_verify rootAccess (ACCESS_TOKEN_SECRET env0) 999 = Inr 1"
    by (simp add: rootAccess_def env0_def)
  have f: "findById (Admin db1) 1 = Some (root0\<lparr>a_refreshToken := Value rootRefresh\<rparr>)"
    by (simp add: db1_def findById_def)
  have a: "a_isActive (root0\<lparr>a_refreshToken := Value rootRefresh\<rparr>)"
    by (simp add: root0_def)
  have l: "loginAdmin env0 100 (Some ''root@codix.io'') (Some ''Root123!@'') db0 =
     (Inr (Response 200 ''Admin logged in successfully'' (Some (rootAccess, rootRefresh))), db1)"
    by (simp add: loginAdmin_def falsy_def env0_def db0_def db1_def findOne_def root0_def mod0_def
        idle0_def admin_generateAccessToken_def admin_generateRefreshToken_def jwt_sign_def
        expiresIn_def updateById_def rootAccess_def rootRefresh_def Let_def)
  show ?thesis
    using logout_leaves_access_token_valid [OF v f a, of None] l
    by (simp add: root0_def)
qed

subsection \<open>Refresh-token rotation\<close>

lemma adminRefreshAccepted_iff:
  "adminRefreshAccepted e now d i t \<longleftrightarrow>
     jwt_verify t (REFRESH_TOKEN_SECRET e) now = Inr i \<and>
     (\<exists>a. findById (Admin d) i = Some a \<and> a_refreshToken a = Value t)"
  by (cases t)
     (auto simp: adminRefreshAccepted_def verifyAdminRefreshToken_def verifyAdminRefreshToken_try_def
        orElse_def tokenTruthy_def split: sum.splits option.splits if_splits)

lemma generateAccessAndRefreshToken_found:
  "findById (Client d) i = Some c \<Longrightarrow>
   generateAccessAndRefreshToken e now i d =
     (Inr (client_generateAccessToken e now i c, client_generateRefreshToken e now i c),
      d\<lparr>Client := updateById i (\<lambda>x. x\<lparr>c_refreshToken := Value (client_generateRefreshToken e now i c)\<rparr>) (Client d)\<rparr>)"
  by (simp add: generateAccessAndRefreshToken_def Let_def)

lemma clientRefreshAccepted_iff:
  "clientRefreshAccepted e now d i t \<longleftrightarrow>
     jwt_verify t (REFRESH_TOKEN_SECRET e) now = Inr i \<and>
     (\<exists>c. findById (Client d) i = Some c \<and> c_refreshToken c = Value t)"
  by (cases t)
     (auto simp: clientRefreshAccepted_def refreshClientAccessToken_def refreshClientAccessToken_try_def
        orElse_def tokenTruthy_def generateAccessAndRefreshToken_found
        split: sum.splits option.splits if_splits prod.splits)

lemma refreshAdminToken_success:
  assumes "refreshAdminToken e now ck bd d = (Inr r, d')"
  shows "\<exists>i a. jwt_verify (the (orElse ck bd)) (REFRESH_TOKEN_SECRET e) now = Inr i \<and>
           findById (Admin d) i = Some a \<and> a_refreshToken a = Value (the (orElse ck bd)) \<and>
           r = Response 200 ''Access token refreshed''
                 (Some (admin_generateAccessToken e now i a, admin_generateRefreshToken e now i a)) \<and>
           d' = d\<lparr>Admin := updateById i
                   (\<lambda>x. x\<lparr>a_refreshToken := Value (admin_generateRefreshToken e now i a)\<rparr>) (Admin d)\<rparr>"
  using assms
  by (auto simp: refreshAdminToken_def refreshAdminToken_try_def Let_def
        split: sum.splits option.splits if_splits prod.splits)

lemma refreshClientAccessToken_success:
  assumes "refreshClientAccessToken e now ck bd d = (Inr r, d')"
  shows "\<exists>i c. jwt_verify (the (orElse ck bd)) (REFRESH_TOKEN_SECRET e) now = Inr i \<and>
           findById (Client d) i = Some c \<and> c_refreshToken c = Value (the (orElse ck bd)) \<and>
           r = Response 200 ''Access token refreshed''
                 (Some (client_generateAccessToken e now i c, client_generateRefreshToken e now i c)) \<and>
           d' = d\<lparr>Client := updateById i
                   (\<lambda>x. x\<lparr>c_refreshToken := Value (client_generateRefreshToken e now i c)\<rparr>) (Client d)\<rparr>"
  using assms
  by (auto simp: refreshClientAccessToken_def refreshClientAccessToken_try_def Let_def
        generateAccessAndRefreshToken_found
        split: sum.splits option.splits if_splits prod.splits)

lemma adminRefreshAccepted_unique:
  "adminRefreshAccepted e n1 d i t1 \<Longrightarrow> adminRefreshAccepted e n2 d i t2 \<Longrightarrow> t1 = t2"
  by (auto simp: adminRefreshAccepted_iff)

lemma clientRefreshAccepted_unique:
  "clientRefreshAccepted e n1 d i t1 \<Longrightarrow> clientRefreshAccepted e n2 d i t2 \<Longrightarrow> t1 = t2"
  by (auto simp: clientRefreshAccepted_iff)

lemma refreshAdminToken_rotates:
  assumes "refreshAdminToken e now ck bd d = (Inr r, d')"
  shows "\<exists>i a. adminRefreshAccepted e now d i (the (orElse ck bd)) \<and> findById (Admin d) i = Some a \<and>
           r = Response 200 ''Access token refreshed''
                 (Some (admin_generateAccessToken e now i a, admin_generateRefreshToken e now i a)) \<and>
           map_option a_refreshToken (findById (Admin d') i) = Some (Value (admin_generateRefreshToken e now i a)) \<and>
           (\<forall>t' now'. adminRefreshAccepted e now' d' i t' \<longrightarrow> t' = admin_generateRefreshToken e now i a)"
proof -
  from refreshAdminToken_success [OF assms] obtain i a where
    v: "jwt_verify (the (orElse ck bd)) (REFRESH_TOKEN_SECRET e) now = Inr i" and
    f: "findById (Admin d) i = Some a" and s: "a_refreshToken a = Value (the (orElse ck bd))" and
    r: "r = Response 200 ''Access token refreshed''
                 (Some (admin_generateAccessToken e now i a, admin_generateRefreshToken e now i a))" and
    d': "d' = d\<lparr>Admin := updateById i
                   (\<lambda>x. x\<lparr>a_refreshToken := Value (admin_generateRefreshToken e now i a)\<rparr>) (Admin d)\<rparr>"
    by blast
  have acc: "adminRefreshAccepted e now d i (the (orElse ck bd))"
    using v f s by (simp add: adminRefreshAccepted_iff)
  have st: "map_option a_refreshToken (findById (Admin d') i) = Some (Value (admin_generateRefreshToken e now i a))"
    using f by (simp add: d' findById_updateById)
  have only: "\<forall>t' now'. adminRefreshAccepted e now' d' i t' \<longrightarrow> t' = admin_generateRefreshToken e now i a"
    using f by (auto simp: adminRefreshAccepted_iff d' findById_updateById)
  show ?thesis using acc f r st only by blast
qed

lemma refreshClientAccessToken_rotates:
  assumes "refreshClientAccessToken e now ck bd d = (Inr r, d')"
  shows "\<exists>i c. clientRefreshAccepted e now d i (the (orElse ck bd)) \<and> findById (Client d) i = Some c \<and>
           r = Response 200 ''Access token refreshed''
                 (Some (client_generateAccessToken e now i c, client_generateRefreshToken e now i c)) \<and>
           map_option c_refreshToken (findById (Client d') i) = Some (Value (client_generateRefreshToken e now i c)) \<and>
           (\<forall>t' now'. clientRefreshAccepted e now' d' i t' \<longrightarrow> t' = client_generateRefreshToken e now i c)"
proof -
  from refreshClientAccessToken_success [OF assms] obtain i c where
    v: "jwt_verify (the (orElse ck bd)) (REFRESH_TOKEN_SECRET e) now = Inr i" and
    f: "findById (Client d) i = Some c" and s: "c_refreshToken c = Value (the (orElse ck bd))" and
    r: "r = Response 200 ''Access token refreshed''
                 (Some (client_generateAccessToken e now i c, client_generateRefreshToken e now i c))" and
    d': "d' = d\<lparr>Client := updateById i
                   (\<lambda>x. x\<lparr>c_refreshToken := Value (client_generateRefreshToken e now i c)\<rparr>) (Client d)\<rparr>"
    by blast
  have acc: "clientRefreshAccepted e now d i (the (orElse ck bd))"
    using v f s by (simp add: clientRefreshAccepted_iff)
  have st: "map_option c_refreshToken (findById (Client d') i) = Some (Value (client_generateRefreshToken e now i c))"
    using f by (simp add: d' findById_updateById)
  have only: "\<forall>t' now'. clientRefreshAccepted e now' d' i t' \<longrightarrow> t' = client_generateRefreshToken e now i c"
    using f by (auto simp: clientRefreshAccepted_iff d' findById_updateById)
  show ?thesis using acc f r st only by blast
qed

text \<open>
  C1, as the code has it. A successful refresh, of an admin or of a client, was presented
  a token that passes verification, issues an access and a refresh token signed at the
  current second, and stores the new refresh token; afterwards a token passes verification
  for that principal only if it is the newly issued one. So the token presented before is
  rejected whenever it differs from the new one. In every state at most one refresh token
  per principal passes verification.
\<close>

theorem refresh_rotation:
  "(refreshAdminToken e now ck bd d = (Inr r, d') \<longrightarrow>
      (\<exists>i a. adminRefreshAccepted e now d i (the (orElse ck bd)) \<and> findById (Admin d) i = Some a \<and>
           r = Response 200 ''Access token refreshed''
                 (Some (admin_generateAccessToken e now i a, admin_generateRefreshToken e now i a)) \<and>
           map_option a_refreshToken (findById (Admin d') i) = Some (Value (admin_generateRefreshToken e now i a)) \<and>
           (\<forall>t' now'. adminRefreshAccepted e now' d' i t' \<longrightarrow> t' = admin_generateRefreshToken e now i a))) \<and>
   (refreshClientAccessToken e now ck bd d = (Inr r, d') \<longrightarrow>
      (\<exists>i c. clientRefreshAccepted e now d i (the (orElse ck bd)) \<and> findById (Client d) i = Some c \<and>
           r = Response 200 ''Access token refreshed''
                 (Some (client_generateAccessToken e now i c, client_generateRefreshToken e now i c)) \<and>
           map_option c_refreshToken (findById (Client d') i) = Some (Value (client_generateRefreshToken e now i c)) \<and>
           (\<forall>t' now'. clientRefreshAccepted e now' d' i t' \<longrightarrow> t' = client_generateRefreshToken e now i c))) \<and>
   (adminRefreshAccepted e n1 d i t1 \<and> adminRefreshAccepted e n2 d i t2 \<longrightarrow> t1 = t2) \<and>
   (clientRefreshAccepted e n1 d i t1 \<and> clientRefreshAccepted e n2 d i t2 \<longrightarrow> t1 = t2)"
proof (intro conjI impI)
  assume "refreshAdminToken e now ck bd d = (Inr r, d')"
  then show "\<exists>i a. adminRefreshAccepted e now d i (the (orElse ck bd)) \<and> findById (Admin d) i = Some a \<and>
           r = Response 200 ''Access token refreshed''
                 (Some (admin_generateAccessToken e now i a, admin_generateRefreshToken e now i a)) \<and>
           map_option a_refreshToken (findById (Admin d') i) = Some (Value (admin_generateRefreshToken e now i a)) \<and>
           (\<forall>t' now'. adminRefreshAccepted e now' d' i t' \<longrightarrow> t' = admin_generateRefreshToken e now i a)"
    by (rule refreshAdminToken_rotates)
next
  assume "refreshClientAccessToken e now ck bd d = (Inr r, d')"
  then show "\<exists>i c. clientRefreshAccepted e now d i (the (orElse ck bd)) \<and> findById (Client d) i = Some c \<and>
           r = Response 200 ''Access token refreshed''
                 (Some (client_generateAccessToken e now i c, client_generateRefreshToken e now i c)) \<and>
           map_option c_refreshToken (findById (Client d') i) = Some (Value (client_generateRefreshToken e now i c)) \<and>
           (\<forall>t' now'. clientRefreshAccepted e now' d' i t' \<longrightarrow> t' = client_generateRefreshToken e now i c)"
    by (rule refreshClientAccessToken_rotates)
next
  assume "adminRefreshAccepted e n1 d i t1 \<and> adminRefreshAccepted e n2 d i t2"
  then show "t1 = t2" using adminRefreshAccepted_unique by blast
next
  assume "clientRefreshAccepted e n1 d i t1 \<and> clientRefreshAccepted e n2 d i t2"
  then show "t1 = t2" using clientRefreshAccepted_unique by blast
qed

lemma refresh_at_200:
  "refreshAdminToken env0 200 (Some rootRefresh) None db1 =
     (Inr (Response 200 ''Access token refreshed'' (Some (rootAccess200, rootRefresh200))), db3)"
  by (simp add: refreshAdminToken_def refreshAdminToken_try_def Let_def orElse_def tokenTruthy_def
      rootRefresh_def env0_def db1_def db0_def findById_def root0_def admin_generateAccessToken_def
      admin_generateRefreshToken_def jwt_sign_def expiresIn_def updateById_def rootAccess200_def
      rootRefresh200_def db3_def)

theorem refresh_rotation_witness:
  "refreshAdminToken env0 200 (Some rootRefresh) None db1 =
     (Inr (Response 200 ''Access token refreshed'' (Some (rootAccess200, rootRefresh200))), db3) \<and>
   \<not> adminRefreshAccepted env0 300 db3 1 rootRefresh \<and>
   adminRefreshAccepted env0 300 db3 1 rootRefresh200"
proof -
  have a: "adminRefreshAccepted env0 300 db3 1 rootRefresh200"
    by (simp add: adminRefreshAccepted_iff rootRefresh200_def env0_def db3_def findById_def)
  have ne: "rootRefresh \<noteq> rootRefresh200" by (simp add: rootRefresh_def rootRefresh200_def)
  have "\<exists>i a. adminRefreshAccepted env0 200 db1 i (the (orElse (Some rootRefresh) None)) \<and>
           findById (Admin db1) i = Some a \<and>
           Response 200 ''Access token refreshed'' (Some (rootAccess200, rootRefresh200)) =
             Response 200 ''Access token refreshed''
                 (Some (admin_generateAccessToken env0 200 i a, admin_generateRefreshToken env0 200 i a)) \<and>
           map_option a_refreshToken (findById (Admin db3) i) =
             Some (Value (admin_generateRefreshToken env0 200 i a)) \<and>
           (\<forall>t' now'. adminRefreshAccepted env0 now' db3 i t' \<longrightarrow>
              t' = admin_generateRefreshToken env0 200 i a)"
    by (rule refresh_rotation [where e = env0 and now = 200 and ck = "Some rootRefresh" and bd = None
          and d = db1 and d' = db3, THEN conjunct1, THEN mp, OF refresh_at_200])
  then obtain i x where
    acc: "adminRefreshAccepted env0 200 db1 i (the (orElse (Some rootRefresh) None))" and
    only: "\<forall>t' now'. adminRefreshAccepted env0 now' db3 i t' \<longrightarrow>
              t' = admin_generateRefreshToken env0 200 i x"
    by blast
  have i: "i = 1"
    using acc by (simp add: adminRefreshAccepted_iff orElse_def tokenTruthy_def rootRefresh_def env0_def)
  have "admin_generateRefreshToken env0 200 i x = rootRefresh200"
    by (simp add: i admin_generateRefreshToken_def jwt_sign_def expiresIn_def env0_def rootRefresh200_def)
  with only i ne have "\<not> adminRefreshAccepted env0 300 db3 1 rootRefresh" by auto
  with a refresh_at_200 show ?thesis by simp
qed

text \<open>
  C1 as stated fails when the refresh happens within the second in which the presented
  token was signed: the new refresh token is the same string, and the token presented
  before still passes verification afterwards.
\<close>

theorem refresh_in_the_same_second_keeps_old_token:
  "loginAdmin env0 100 (Some ''root@codix.io'') (Some ''Root123!@'') db0 =
     (Inr (Response 200 ''Admin logged in successfully'' (Some (rootAccess, rootRefresh))), db1) \<and>
   refreshAdminToken env0 100 (Some rootRefresh) None db1 =
     (Inr (Response 200 ''Access token refreshed'' (Some (rootAccess, rootRefresh))), db1) \<and>
   verifyAdminRefreshToken env0 101 (Some rootRefresh) None db1 =
     Inr (1, root0\<lparr>a_refreshToken := Value rootRefresh\<rparr>) \<and>
   adminRefreshAccepted env0 101 db1 1 rootRefresh"
  by (simp add: loginAdmin_def falsy_def env0_def db0_def db1_def findOne_def root0_def mod0_def
        idle0_def admin_generateAccessToken_def admin_generateRefreshToken_def jwt_sign_def
        expiresIn_def updateById_def rootAccess_def rootRefresh_def Let_def
        refreshAdminToken_def refreshAdminToken_try_def orElse_def tokenTruthy_def findById_def
        verifyAdminRefreshToken_def verifyAdminRefreshToken_try_def adminRefreshAccepted_def)

subsection \<open>The life of the stored refresh token\<close>

lemma findOne_findById:
  "findOne c P = Some (i, x) \<Longrightarrow> findById c i \<noteq> None"
  by (induction c) (auto simp: findOne_def findById_def split: if_splits)

lemma loginAdmin_sets_refreshToken:
  assumes "loginAdmin e now email password d = (Inr r, d')"
  shows "\<exists>i acc ref. r = Response 200 ''Admin logged in successfully'' (Some (acc, ref)) \<and>
           map_option a_refreshToken (findById (Admin d') i) = Some (Value ref)"
proof -
  from assms obtain i a where f: "findOne (Admin d) (\<lambda>a. a_email a = the email) = Some (i, a)"
    and r: "r = Response 200 ''Admin logged in successfully''
              (Some (admin_generateAccessToken e now i a, admin_generateRefreshToken e now i a))"
    and d': "d' = d\<lparr>Admin := updateById i
               (\<lambda>x. x\<lparr>a_refreshToken := Value (admin_generateRefreshToken e now i a)\<rparr>) (Admin d)\<rparr>"
    by (auto simp: loginAdmin_def Let_def split: if_splits option.splits prod.splits)
  from findOne_findById [OF f] obtain b where "findById (Admin d) i = Some b" by blast
  then have "map_option a_refreshToken (findById (Admin d') i) =
      Some (Value (admin_generateRefreshToken e now i a))"
    by (simp add: d' findById_updateById)
  with r show ?thesis by blast
qed

lemma loginClient_sets_refreshToken:
  assumes "loginClient e now email password d = (Inr r, d')"
  shows "\<exists>i acc ref. r = Response 200 ''Client logged in successfully'' (Some (acc, ref)) \<and>
           map_option c_refreshToken (findById (Client d') i) = Some (Value ref)"
proof -
  from assms obtain i c where f: "findOne (Client d) (\<lambda>c. c_email c = the email) = Some (i, c)"
    and g: "generateAccessAndRefreshToken e now i d =
              (Inr (case r of Response st m toks \<Rightarrow> the toks), d')"
    and r: "\<exists>toks. r = Response 200 ''Client logged in successfully'' (Some toks)"
    by (auto simp: loginClient_def loginClient_try_def split: if_splits option.splits prod.splits sum.splits)
  from findOne_findById [OF f] obtain b where b: "findById (Client d) i = Some b" by blast
  from g b r show ?thesis
    by (auto simp: generateAccessAndRefreshToken_found findById_updateById)
qed

lemma logoutAdmin_clears:
  "\<not> adminRefreshAccepted e now (snd (logoutAdmin i d)) i t"
  by (auto simp: adminRefreshAccepted_iff logoutAdmin_def findById_updateById)

lemma logoutClient_clears:
  "\<not> clientRefreshAccepted e now (snd (logoutClient i d)) i t"
  by (auto simp: clientRefreshAccepted_iff logoutClient_def findById_updateById)

lemma changeClientPassword_keeps_refreshToken:
  "map_option c_refreshToken (findById (Client (snd (changeClientPassword i opw npw d))) j) =
   map_option c_refreshToken (findById (Client d) j)"
  by (cases "findById (Client d) j")
     (auto simp: changeClientPassword_def findById_updateById split: option.splits)

lemma changeClientPassword_keeps_accepted:
  "clientRefreshAccepted e now (snd (changeClientPassword i opw npw d)) j t =
   clientRefreshAccepted e now d j t"
  using changeClientPassword_keeps_refreshToken [of i opw npw d j]
  by (cases "findById (Client d) j"; cases "findById (Client (snd (changeClientPassword i opw npw d))) j")
     (auto simp: clientRefreshAccepted_iff)

text \<open>
  C7 at a client's password change: the client logs in, changes the password with the right
  old and a strong new password, and is answered 200; the stored refresh token is the one
  issued at login, and it still passes verification. (\<open>changeClientPassword\<close> writes the
  password only; the admin's \<open>changePassword\<close> also unsets the refresh token.)
\<close>

theorem client_password_change_keeps_refresh_token:
  "loginClient env0 100 (Some ''alice@x.com'') (Some ''Alice1!'') db0 =
     (Inr (Response 200 ''Client logged in successfully'' (Some (aliceAccess, aliceRefresh))), db2) \<and>
   changeClientPassword 10 (Some ''Alice1!'') (Some ''Alice2!?'') db2 =
     (Inr (Response 200 ''Password changed'' None), db4) \<and>
   map_option c_refreshToken (findById (Client db4) 10) = Some (Value aliceRefresh) \<and>
   clientRefreshAccepted env0 200 db4 10 aliceRefresh"
proof (intro conjI)
  show "loginClient env0 100 (Some ''alice@x.com'') (Some ''Alice1!'') db0 =
     (Inr (Response 200 ''Client logged in successfully'' (Some (aliceAccess, aliceRefresh))), db2)"
    by (simp add: loginClient_def loginClient_try_def falsy_def db0_def db2_def findOne_def alice0_def
        generateAccessAndRefreshToken_def findById_def Let_def client_generateAccessToken_def
        client_generateRefreshToken_def jwt_sign_def expiresIn_def env0_def updateById_def
        aliceAccess_def aliceRefresh_def bob0_def)
  show "changeClientPassword 10 (Some ''Alice1!'') (Some ''Alice2!?'') db2 =
     (Inr (Response 200 ''Password changed'' None), db4)"
    by (simp add: changeClientPassword_def falsy_def db2_def db0_def db4_def findById_def alice0_def
        isPasswordStrong_def isUpper_def isLower_def isDigit_def isSpecial_def specialCodes_def
        updateById_def)
  show "map_option c_refreshToken (findById (Client db4) 10) = Some (Value aliceRefresh)"
    by (simp add: db4_def findById_def)
  show "clientRefreshAccepted env0 200 db4 10 aliceRefresh"
    by (simp add: clientRefreshAccepted_iff aliceRefresh_def env0_def db4_def findById_def)
qed

subsection \<open>Helpers for the delete handlers\<close>




lemma verifyBlogOwnership_store:
  "store (snd (verifyBlogOwnership faults cid b d)) = d"
  by (simp add: verifyBlogOwnership_def verifyBlogOwnership_try_def verifyBlogOwnership_catch_def
        js_defs split: if_split option.split)

lemma verifyBlogOwnership_result:
  assumes "\<not> faults OwnerFindClient" and "\<not> faults OwnerFindBlog"
  shows "fst (verifyBlogOwnership faults cid b d) =
     (case findById (Client d) cid of
        None \<Rightarrow> Inl (ApiError 404 ''Client not found'')
      | Some c \<Rightarrow>
          if c_status c \<noteq> ''active'' then Inl (ApiError 403 ''Client account is not active'')
          else (case findById (Blog d) b of
                  None \<Rightarrow> Inl (ApiError 404 ''Blog not found'')
                | Some bl \<Rightarrow>
                    if b_author bl \<noteq> cid
                      then Inl (ApiError 403 ''Unauthorized: You don't own this blog'')
                    else if faults OwnerCommit
                      then Inl (transactionError
                             ''Cannot call abortTransaction after calling commitTransaction'')
                    else Inr True))"
  using assms
  by (simp add: verifyBlogOwnership_def verifyBlogOwnership_try_def verifyBlogOwnership_catch_def
        js_defs split: if_split option.split)

lemma deleteBlog_guard:
  assumes "\<not> faults OwnerFindClient" and "\<not> faults OwnerFindBlog"
    and "fst (verifyBlogOwnership faults cid b d) = Inl (ApiError c m)"
  shows "deleteBlog faults cl cid (Some b) d =
     (Inl (ApiError c m), endSession
        ((startTransaction (startSession d))\<lparr>sess := (sess (startTransaction (startSession d)))\<lparr>txn := TRANSACTION_ABORTED\<rparr>\<rparr>))"
  using assms(3) verifyBlogOwnership_store [of faults cid b d]
  by (cases "verifyBlogOwnership faults cid b d")
     (simp add: deleteBlog_def deleteBlog_try_def deleteBlog_catch_def callVerifyBlogOwnership_def js_defs)

subsection \<open>Deleting a blog: the order of the guards\<close>

text \<open>
  C3, as the code has it. For a well-formed blog id and a requesting client that exists
  (database reads succeeding), \<open>deleteBlog\<close> first answers 403 when the requesting client's
  status is not \<open>active\<close>, whether or not the blog exists. For an active client it answers
  404 when the blog does not exist, and 403 when the blog exists and its author is another
  client: existence of the blog is checked before ownership. In all three cases the
  committed documents are untouched.
\<close>

theorem deleteBlog_guard_order:
  assumes "\<not> faults OwnerFindClient" and "\<not> faults OwnerFindBlog"
    and "findById (Client d) cid = Some c"
  shows "(c_status c \<noteq> ''active'' \<longrightarrow>
            fst (deleteBlog faults cl cid (Some b) d) = Inl (ApiError 403 ''Client account is not active'')) \<and>
         (c_status c = ''active'' \<and> findById (Blog d) b = None \<longrightarrow>
            fst (deleteBlog faults cl cid (Some b) d) = Inl (ApiError 404 ''Blog not found'')) \<and>
         (c_status c = ''active'' \<and> (\<exists>bl. findById (Blog d) b = Some bl \<and> b_author bl \<noteq> cid) \<longrightarrow>
            fst (deleteBlog faults cl cid (Some b) d) =
              Inl (ApiError 403 ''Unauthorized: You don't own this blog'')) \<and>
         (c_status c \<noteq> ''active'' \<or> findById (Blog d) b = None \<or>
            (\<exists>bl. findById (Blog d) b = Some bl \<and> b_author bl \<noteq> cid) \<longrightarrow>
            store (snd (deleteBlog faults cl cid (Some b) d)) = d)"
proof -
  note r = verifyBlogOwnership_result [OF assms(1,2), of cid b d]
  note g = deleteBlog_guard [OF assms(1,2), of cid b d _ _ cl]
  have 1: "fst (deleteBlog faults cl cid (Some b) d) = Inl (ApiError 403 ''Client account is not active'')
           \<and> store (snd (deleteBlog faults cl cid (Some b) d)) = d"
    if "c_status c \<noteq> ''active''"
    using that assms(3) r g [of 403 "''Client account is not active''"]
    by (simp add: endSession_def startTransaction_def startSession_def)
  have 2: "fst (deleteBlog faults cl cid (Some b) d) = Inl (ApiError 404 ''Blog not found'')
           \<and> store (snd (deleteBlog faults cl cid (Some b) d)) = d"
    if "c_status c = ''active''" "findById (Blog d) b = None"
    using that assms(3) r g [of 404 "''Blog not found''"]
    by (simp add: endSession_def startTransaction_def startSession_def)
  have 3: "fst (deleteBlog faults cl cid (Some b) d) = Inl (ApiError 403 ''Unauthorized: You don't own this blog'')
           \<and> store (snd (deleteBlog faults cl cid (Some b) d)) = d"
    if "c_status c = ''active''" "findById (Blog d) b = Some bl" "b_author bl \<noteq> cid" for bl
    using that assms(3) r g [of 403 "''Unauthorized: You don't own this blog''"]
    by (simp add: endSession_def startTransaction_def startSession_def)
  show ?thesis
  proof (intro conjI impI)
    assume "c_status c \<noteq> ''active''" then show "fst (deleteBlog faults cl cid (Some b) d) = Inl (ApiError 403 ''Client account is not active'')"
      using 1 by simp
  next
    assume "c_status c = ''active'' \<and> findById (Blog d) b = None"
    then show "fst (deleteBlog faults cl cid (Some b) d) = Inl (ApiError 404 ''Blog not found'')"
      using 2 by simp
  next
    assume "c_status c = ''active'' \<and> (\<exists>bl. findById (Blog d) b = Some bl \<and> b_author bl \<noteq> cid)"
    then show "fst (deleteBlog faults cl cid (Some b) d) = Inl (ApiError 403 ''Unauthorized: You don't own this blog'')"
      using 3 by blast
  next
    assume a: "c_status c \<noteq> ''active'' \<or> findById (Blog d) b = None \<or>
            (\<exists>bl. findById (Blog d) b = Some bl \<and> b_author bl \<noteq> cid)"
    show "store (snd (deleteBlog faults cl cid (Some b) d)) = d"
    proof (cases "c_status c = ''active''")
      case False then show ?thesis using 1 by simp
    next
      case True
      with a 2 3 show ?thesis by blast
    qed
  qed
qed

theorem deleteBlog_guard_order_witness:
  "fst (deleteBlog noFaults cloudUp 10 (Some 99) db0) = Inl (ApiError 404 ''Blog not found'') \<and>
   fst (deleteBlog noFaults cloudUp 10 (Some 21) db0) =
     Inl (ApiError 403 ''Unauthorized: You don't own this blog'') \<and>
   store (snd (deleteBlog noFaults cloudUp 10 (Some 21) db0)) = db0 \<and>
   fst (deleteBlog noFaults cloudUp 11 (Some 20) db0) = Inl (ApiError 403 ''Client account is not active'')"
proof -
  have nf: "\<not> noFaults OwnerFindClient" "\<not> noFaults OwnerFindBlog" by (simp_all add: noFaults_def)
  have a: "findById (Client db0) 10 = Some alice0" and b: "findById (Client db0) 11 = Some bob0"
    by (simp_all add: db0_def findById_def)
  have bl: "findById (Blog db0) 99 = None"
      "findById (Blog db0) 21 = Some \<lparr>b_title = ''World'', b_author = 11, b_coverImage_url = []\<rparr>"
    by (simp_all add: db0_def findById_def)
  have st: "c_status alice0 = ''active''" "c_status bob0 \<noteq> ''active''"
    by (simp_all add: alice0_def bob0_def)
  show ?thesis
    using deleteBlog_guard_order [where faults = noFaults and cl = cloudUp and b = 99, OF nf a]
      deleteBlog_guard_order [where faults = noFaults and cl = cloudUp and b = 21, OF nf a]
      deleteBlog_guard_order [where faults = noFaults and cl = cloudUp and b = 20, OF nf b]
      bl st
    by simp
qed

text \<open>
  C3 as stated fails for a client whose account is not active: asked to delete a blog id
  that does not exist, \<open>deleteBlog\<close> answers 403, not 404.
\<close>

theorem inactive_client_missing_blog_gets_403:
  "findById (Client db0) 11 = Some bob0 \<and> c_status bob0 = ''banned'' \<and> findById (Blog db0) 99 = None \<and>
   fst (deleteBlog noFaults cloudUp 11 (Some 99) db0) = Inl (ApiError 403 ''Client account is not active'')"
  by (simp add: db0_def findById_def bob0_def alice0_def noFaults_def deleteBlog_def deleteBlog_try_def
      deleteBlog_catch_def callVerifyBlogOwnership_def verifyBlogOwnership_def
      verifyBlogOwnership_try_def verifyBlogOwnership_catch_def js_defs)

subsection \<open>Deleting the external object\<close>






subsection \<open>Releasing the session\<close>

text \<open>
  A handler that ends with \<open>finally { session.endSession() }\<close> releases its session on
  every path, whatever the \<open>try\<close> and \<open>catch\<close> blocks do.
\<close>

lemma tryFinally_endSession_ended: "ended (sess (snd (tryFinally m endSession s)))"
  by (simp add: tryFinally_def endSession_def split: prod.splits)

lemma createAdmin_ends_session:
  "ended (sess (snd (createAdmin e faults newId role fn em pw rl d)))"
  by (simp add: createAdmin_def tryFinally_endSession_ended)

lemma registerClient_ends_session:
  "ended (sess (snd (registerClient e faults now newId fn em pw ph d)))"
  by (simp add: registerClient_def tryFinally_endSession_ended)

lemma deleteServiceRequestAttachment_ends_session:
  "ended (sess (snd (deleteServiceRequestAttachment faults cl cid rid publicId d)))"
  by (simp add: deleteServiceRequestAttachment_def tryFinally_endSession_ended)

lemma deleteService_ends_session:
  "ended (sess (snd (deleteService faults cl i role sid d)))"
  by (simp add: deleteService_def tryFinally_endSession_ended)

text \<open>
  C5 at \<open>uploadThumbnail\<close>: the handler starts a session and a transaction and has no
  \<open>finally\<close> block, so on every path, success and failure alike, it returns with the
  session not released.
\<close>

theorem uploadThumbnail_never_ends_session:
  "\<not> ended (sess (snd (uploadThumbnail faults cl i role sid fp d)))"
  by (simp add: uploadThumbnail_def uploadThumbnail_try_def uploadThumbnail_catch_def
        checkAdminPermissions_def js_defs
        split: if_split option.split sum.split)

lemma uploadThumbnail_example:
  "fst (uploadThumbnail noFaults cloudUp 1 ''superadmin'' (Some 30) (Some ''a.png'') db0) =
     Inr (Response 200 ''Thumbnail uploaded successfully'' None) \<and>
   ended (sess (snd (uploadThumbnail noFaults cloudUp 1 ''superadmin'' (Some 30) (Some ''a.png'') db0))) = False \<and>
   fst (uploadThumbnail noFaults cloudUp 2 ''moderator'' (Some 30) (Some ''a.png'') db0) =
     Inl (ApiError 500 ''Unauthorized: You don't have permission to manage services'') \<and>
   ended (sess (snd (uploadThumbnail noFaults cloudUp 2 ''moderator'' (Some 30) (Some ''a.png'') db0))) = False"
  by (simp add: uploadThumbnail_def uploadThumbnail_try_def uploadThumbnail_catch_def
        checkAdminPermissions_def js_defs noFaults_def db0_def findById_def root0_def mod0_def truthy_def
        schemaPermissions_def permissionNames_def defaultPermissions_def falsy_def cloudUp_def
        deleteFromCloudinary_def publicIdOf_def updateById_def orDefault_def)

subsection \<open>Transactions: what a handler leaves committed\<close>









subsection \<open>Password strength\<close>

text \<open>
  What \<open>isPasswordStrong\<close> requires, and what the handlers do with a password it rejects:
  status 400, nothing written and nothing hashed.
\<close>

lemma isPasswordStrong_iff:
  "isPasswordStrong p \<longleftrightarrow>
     (\<exists>c \<in> set p. isUpper c) \<and> (\<exists>c \<in> set p. isLower c) \<and> (\<exists>c \<in> set p. isDigit c) \<and>
     (\<exists>c \<in> set p. isSpecial c) \<and> 6 \<le> length p"
  by (simp add: isPasswordStrong_def list_ex_iff)

lemma registerClient_weak_password:
  assumes "areRequiredFieldsProvided [fn, em, pw, ph]" and "isEmailValid e (the em)"
    and "isPhoneValid e (the ph)" and "\<not> isPasswordStrong (the pw)"
  shows "registerClient e faults now newId fn em pw ph d =
     (Inl (ApiError 400
        ''Password must be at least 6 characters with uppercase, lowercase, number and special character''),
      \<lparr>store = d, sess = \<lparr>txn = TRANSACTION_ABORTED, view = d, ended = True\<rparr>\<rparr>)"
  using assms
  by (simp add: registerClient_def registerClient_try_def registerClient_catch_def sendVerificationEmail_def
        sendEmail_def js_defs)

lemma createAdmin_weak_password:
  assumes "areRequiredFieldsProvided [fn, em, pw, rl]" and "isEmailValid e (the em)"
    and "\<not> isPasswordStrong (the pw)"
  shows "createAdmin e faults newId ''superadmin'' fn em pw rl d =
     (Inl (ApiError 400
        ''Password must be at least 8 characters with uppercase, lowercase, number, and special character''),
      \<lparr>store = d, sess = \<lparr>txn = TRANSACTION_ABORTED, view = d, ended = True\<rparr>\<rparr>)"
  using assms
  by (simp add: createAdmin_def createAdmin_try_def createAdmin_catch_def js_defs)

lemma changeClientPassword_weak_password:
  assumes "\<not> falsy opw" and "\<not> falsy npw" and "findById (Client d) i = Some c"
    and "bcrypt_compare (the opw) (c_password c)" and "\<not> isPasswordStrong (the npw)"
  shows "changeClientPassword i opw npw d =
     (Inl (ApiError 400
        ''Password must be at least 6 characters with uppercase, lowercase, number and special character''), d)"
  using assms by (simp add: changeClientPassword_def)

text \<open>
  What the admin's \<open>changePassword\<close> leaves committed: nothing on failure; on success the
  new password, of at least 8 characters by the schema's \<open>minlength\<close>, and no refresh token.
\<close>

lemma changePassword_outcome:
  "(case changePassword faults i cur new d of
      (Inl err, s') \<Rightarrow> store s' = d
    | (Inr r, s') \<Rightarrow> 8 \<le> length (the new) \<and> isPasswordStrong (the new) \<and>
        store s' = d\<lparr>Admin := updateById i (\<lambda>x. x\<lparr>a_refreshToken := Undefined\<rparr>)
                     (updateById i (\<lambda>x. x\<lparr>a_password := Bcrypt 12 (the new)\<rparr>) (Admin d))\<rparr>)"
  by (simp add: changePassword_def changePassword_try_def changePassword_catch_def js_defs
      split: if_split option.split sum.split)

lemma changePassword_clears:
  "changePassword faults i cur new d = (Inr r, s') \<Longrightarrow> \<not> adminRefreshAccepted e now (store s') i t"
  using changePassword_outcome [where faults = faults and i = i and cur = cur and new = new and d = d]
  by (auto simp: adminRefreshAccepted_iff findById_updateById)

text \<open>
  C6 at an admin password of six characters: \<open>isPasswordStrong\<close> accepts \<open>Abc12!\<close>, so the
  admin handlers do not answer it with their 400 \<open>Password must be at least 8 characters\<close>
  (as they do for \<open>abc123\<close>). The password is refused later, by the schema's
  \<open>minlength: 8\<close> when the document is validated, which \<open>changePassword\<close> reports as status 500
  and \<open>createAdmin\<close> as status 400.
\<close>

theorem admin_password_of_six_passes_the_predicate:
  "isPasswordStrong ''Abc12!'' \<and> length ''Abc12!'' = 6 \<and>
   fst (changePassword noFaults 2 (Some ''Mod1234!@'') (Some ''Abc12!'') db0) =
     Inl (ApiError 500 ''Admin validation failed: password'') \<and>
   fst (createAdmin env0 noFaults 5 ''superadmin'' (Some ''New'') (Some ''n@x.io'') (Some ''Abc12!'')
          (Some ''admin'') db0) =
     Inl (ApiError 400 ''Admin validation failed: password'') \<and>
   fst (changePassword noFaults 2 (Some ''Mod1234!@'') (Some ''abc123'') db0) =
     Inl (ApiError 400
       ''Password must be at least 8 characters with uppercase, lowercase, number, and special character'')"
proof (intro conjI)
  show s: "isPasswordStrong ''Abc12!''"
    by (simp add: isPasswordStrong_def isUpper_def isLower_def isDigit_def isSpecial_def specialCodes_def)
  show "length ''Abc12!'' = 6" by simp
  show "fst (changePassword noFaults 2 (Some ''Mod1234!@'') (Some ''Abc12!'') db0) =
     Inl (ApiError 500 ''Admin validation failed: password'')"
    using s
    by (simp add: changePassword_def changePassword_try_def changePassword_catch_def js_defs
        falsy_def noFaults_def db0_def findById_def mod0_def validationError_def orDefault_def)
  show "fst (createAdmin env0 noFaults 5 ''superadmin'' (Some ''New'') (Some ''n@x.io'') (Some ''Abc12!'')
          (Some ''admin'') db0) =
     Inl (ApiError 400 ''Admin validation failed: password'')"
    using s
    by (simp add: createAdmin_def createAdmin_try_def createAdmin_catch_def Admin_create_def js_defs
        noFaults_def env0_def db0_def findOne_def root0_def mod0_def idle0_def validationError_def
        areRequiredFieldsProvided_def isStringEmpty_def isWhiteSpace_def)
  show "fst (changePassword noFaults 2 (Some ''Mod1234!@'') (Some ''abc123'') db0) =
     Inl (ApiError 400
       ''Password must be at least 8 characters with uppercase, lowercase, number, and special character'')"
    by (simp add: changePassword_def changePassword_try_def changePassword_catch_def js_defs
        falsy_def isPasswordStrong_def isUpper_def)
qed

end
